theory Spec2Isabelle
  imports Main "HOL-Library.AList" "HOL-Library.Multiset"
begin

section \<open>Python strings\<close>

text \<open>
  A Python \<^verbatim>\<open>str\<close> is a sequence of Unicode code points, and \<^verbatim>\<open>len\<close> and slicing count
  code points. A string is therefore a list of code points; \<open>ascii\<close> embeds an ASCII
  literal, and the few non-ASCII characters of the source are named constants.
\<close>

type_synonym pystr = "nat list"

definition ascii :: "string \<Rightarrow> pystr" where
  "ascii s = map of_char s"

definition nl :: pystr where "nl = [10]"
definition red_circle :: pystr where "red_circle = [0x1F534]"
definition yellow_circle :: pystr where "yellow_circle = [0x1F7E1]"
definition green_circle :: pystr where "green_circle = [0x1F7E2]"
definition warning_sign :: pystr where "warning_sign = [0x26A0, 0xFE0F]"
definition bell :: pystr where "bell = [0x1F514]"
definition calendar :: pystr where "calendar = [0x1F4C5]"
definition bullet :: pystr where "bullet = [0x2022]"
definition books :: pystr where "books = [0x1F4DA]"
definition bar_chart :: pystr where "bar_chart = [0x1F4CA]"
definition desktop_computer :: pystr where "desktop_computer = [0x1F5A5, 0xFE0F]"
definition globe :: pystr where "globe = [0x1F310]"
definition newspaper :: pystr where "newspaper = [0x1F4F0]"
definition cross_mark :: pystr where "cross_mark = [0x274C]"

text \<open>\<^verbatim>\<open>s.startswith(p)\<close> and \<^verbatim>\<open>needle in hay\<close> on strings.\<close>

fun startswith :: "'a list \<Rightarrow> 'a list \<Rightarrow> bool" where
  "startswith s [] = True"
| "startswith [] (p # ps) = False"
| "startswith (c # cs) (p # ps) = (c = p \<and> startswith cs ps)"

fun contains :: "'a list \<Rightarrow> 'a list \<Rightarrow> bool" where
  "contains [] needle = (needle = [])"
| "contains (c # cs) needle = (startswith (c # cs) needle \<or> contains cs needle)"

text \<open>\<^verbatim>\<open>str(n)\<close> for an integer: decimal digits, with a minus sign below zero.\<close>

fun str_nat :: "nat \<Rightarrow> pystr" where
  "str_nat n = (if n < 10 then [48 + n] else str_nat (n div 10) @ [48 + n mod 10])"

declare str_nat.simps [simp del]

definition str_int :: "int \<Rightarrow> pystr" where
  "str_int i = (if i < 0 then 45 # str_nat (nat (- i)) else str_nat (nat i))"

text \<open>
  \<^verbatim>\<open>s.strip()\<close> removes leading and trailing whitespace, where whitespace is what
  \<^verbatim>\<open>str.isspace\<close> accepts; \<^verbatim>\<open>s.rstrip('/')\<close> removes trailing slashes;
  \<^verbatim>\<open>s.replace(c, r)\<close> for a one-character \<open>c\<close> rewrites every occurrence.
\<close>

definition isspace :: "nat \<Rightarrow> bool" where
  "isspace c = ((9 \<le> c \<and> c \<le> 13) \<or> (28 \<le> c \<and> c \<le> 32) \<or> c = 0x85 \<or> c = 0xA0
     \<or> c = 0x1680 \<or> (0x2000 \<le> c \<and> c \<le> 0x200A) \<or> c = 0x2028 \<or> c = 0x2029
     \<or> c = 0x202F \<or> c = 0x205F \<or> c = 0x3000)"

definition rstrip_chars :: "(nat \<Rightarrow> bool) \<Rightarrow> pystr \<Rightarrow> pystr" where
  "rstrip_chars P s = rev (dropWhile P (rev s))"

definition strip :: "pystr \<Rightarrow> pystr" where
  "strip s = rstrip_chars isspace (dropWhile isspace s)"

definition replace_char :: "nat \<Rightarrow> pystr \<Rightarrow> pystr \<Rightarrow> pystr" where
  "replace_char c r s = concat (map (\<lambda>x. if x = c then r else [x]) s)"

text \<open>
  A \<^verbatim>\<open>dict\<close> keeps its keys in insertion order, and the fleet check depends on that
  order, so a dictionary is an association list: storing under a key that is present
  keeps its position, storing under a new key appends it.
\<close>

type_synonym ('k, 'v) dict = "('k \<times> 'v) list"

definition dict_get :: "('k, 'v) dict \<Rightarrow> 'k \<Rightarrow> 'v \<Rightarrow> 'v" where
  "dict_get d k dflt = (case map_of d k of None \<Rightarrow> dflt | Some v \<Rightarrow> v)"

definition dict_set :: "('k, 'v) dict \<Rightarrow> 'k \<Rightarrow> 'v \<Rightarrow> ('k, 'v) dict" where
  "dict_set d k v = AList.update k v d"

text \<open>\<^verbatim>\<open>dict(pairs)\<close> stores the pairs one after the other.\<close>

definition dict_of :: "('k \<times> 'v) list \<Rightarrow> ('k, 'v) dict" where
  "dict_of ps = fold (\<lambda>(k, v) d. dict_set d k v) ps []"

text \<open>
  \<^verbatim>\<open>sorted(xs, key=f, reverse=True)\<close>: the list is reversed, sorted stably in
  ascending key order, and reversed again.
\<close>

definition sorted_reverse :: "('a \<Rightarrow> 'k::linorder) \<Rightarrow> 'a list \<Rightarrow> 'a list" where
  "sorted_reverse f xs = rev (sort_key f (rev xs))"

section \<open>Configuration\<close>

text \<open>
  The module-level \<^verbatim>\<open>CONFIG\<close> dictionary (lines 25 to 41). There are three feature
  toggles; the problems check has none.
\<close>

record config =
  DYNATRACE_TENANT_URL :: pystr
  DYNATRACE_API_TOKEN :: pystr
  IMESSAGE_RECIPIENT :: pystr
  PROBLEM_LOOKBACK_HOURS :: int
  CHECK_ONEAGENT_HEALTH :: bool
  CHECK_ACTIVEGATE_HEALTH :: bool
  CHECK_SYNTHETIC_MONITORS :: bool
  LOG_FILE :: pystr

text \<open>The values \<^verbatim>\<open>CONFIG\<close> holds when the environment sets none of the three keys.\<close>

definition placeholder_tenant_url :: pystr where
  "placeholder_tenant_url = ascii ''https://YOUR_TENANT.live.dynatrace.com''"

definition placeholder_api_token :: pystr where
  "placeholder_api_token = ascii ''YOUR_API_TOKEN''"

definition placeholder_recipient :: pystr where
  "placeholder_recipient = ascii ''+1234567890''"

section \<open>The monitoring API and its client\<close>

text \<open>
  The entities the API returns are JSON objects read with \<^verbatim>\<open>.get\<close>, so every field
  may be absent (\<open>None\<close>). Values are taken to have the types of the API's schema:
  strings for titles, severities, monitoring modes and installer versions, booleans for
  the two flags.
\<close>

record ProblemRecord =
  title :: "pystr option"
  severityLevel :: "pystr option"

record host_properties =
  monitoringMode :: "pystr option"
  installerVersion :: "pystr option"

record HostEntity =
  properties :: "host_properties option"

record GatewayStatus =
  connected :: "bool option"

record SyntheticMonitor =
  enabled :: "bool option"

text \<open>
  What a \<^verbatim>\<open>raise\<close> can raise. \<open>Exception m\<close> is an instance of \<^verbatim>\<open>Exception\<close> (of the
  class or of any subclass) whose \<^verbatim>\<open>str\<close> is \<open>m\<close>. \<open>KeyboardInterrupt\<close> and
  \<open>SystemExit\<close> are the raisables that are not instances of \<^verbatim>\<open>Exception\<close>: the
  interrupt of the process, which can arrive during any call, and the exit request,
  with the \<^verbatim>\<open>str\<close> of its code. \<open>str_exn\<close> is \<^verbatim>\<open>str(e)\<close>, and
  \<open>isinstance_Exception\<close> tells what an \<^verbatim>\<open>except Exception\<close> clause catches.
\<close>

datatype exn = Exception pystr | KeyboardInterrupt | SystemExit pystr

fun str_exn :: "exn \<Rightarrow> pystr" where
  "str_exn (Exception m) = m"
| "str_exn KeyboardInterrupt = []"
| "str_exn (SystemExit m) = m"

fun isinstance_Exception :: "exn \<Rightarrow> bool" where
  "isinstance_Exception (Exception m) = True"
| "isinstance_Exception KeyboardInterrupt = False"
| "isinstance_Exception (SystemExit m) = False"

text \<open>
  What one \<^verbatim>\<open>requests.get\<close> followed by \<^verbatim>\<open>raise_for_status\<close> and \<^verbatim>\<open>json\<close> does:
  it yields a JSON object, in which the list the caller looks for is present or not; or
  it raises a \<^verbatim>\<open>RequestException\<close>; or it raises something else.
\<close>

datatype 'a http = Json "'a list option" | RequestException pystr | Raises exn

text \<open>The answers of the tenant to the four requests of one run.\<close>

record server =
  problems_answer :: "ProblemRecord http"
  entities_answer :: "HostEntity http"
  activeGates_answer :: "GatewayStatus http"
  monitors_answer :: "SyntheticMonitor http"

text \<open>
  The client object. Besides the two fields of the class it carries the tenant it talks
  to and the list of the URLs requested so far, which is how a run's API calls are
  observed.
\<close>

record DynatraceClient =
  base_url :: pystr
  headers :: "(pystr, pystr) dict"
  tenant :: server
  requested :: "pystr list"

definition DynatraceClient_init :: "pystr \<Rightarrow> pystr \<Rightarrow> server \<Rightarrow> DynatraceClient" where
  "DynatraceClient_init tenant_url api_token srv =
     \<lparr>base_url = rstrip_chars (\<lambda>c. c = 47) tenant_url,
      headers = [(ascii ''Authorization'', ascii ''Api-Token '' @ api_token),
                 (ascii ''Content-Type'', ascii ''application/json'')],
      tenant = srv,
      requested = []\<rparr>"

text \<open>
  \<^verbatim>\<open>_get\<close>: a \<^verbatim>\<open>RequestException\<close> is logged and answered with the empty object,
  any other exception propagates. A request is recorded by its URL; its parameters
  (the time window of the problems request, the entity selectors) are not.
\<close>

definition client_get ::
  "DynatraceClient \<Rightarrow> pystr \<Rightarrow> 'a http \<Rightarrow> (exn + 'a list option) \<times> DynatraceClient" where
  "client_get self endpoint answer =
     (let url = base_url self @ ascii ''/api/v2/'' @ endpoint;
          self' = self\<lparr>requested := requested self @ [url]\<rparr>
      in case answer of
           Json data \<Rightarrow> (Inr data, self')
         | RequestException m \<Rightarrow> (Inr None, self')
         | Raises e \<Rightarrow> (Inl e, self'))"

definition get_problems ::
  "DynatraceClient \<Rightarrow> int \<Rightarrow> (exn + ProblemRecord list option) \<times> DynatraceClient" where
  "get_problems self hours = client_get self (ascii ''problems'') (problems_answer (tenant self))"

definition get_oneagent_info ::
  "DynatraceClient \<Rightarrow> (exn + HostEntity list option) \<times> DynatraceClient" where
  "get_oneagent_info self = client_get self (ascii ''entities'') (entities_answer (tenant self))"

definition get_activegates ::
  "DynatraceClient \<Rightarrow> (exn + GatewayStatus list option) \<times> DynatraceClient" where
  "get_activegates self = client_get self (ascii ''activeGates'') (activeGates_answer (tenant self))"

definition get_synthetic_monitors ::
  "DynatraceClient \<Rightarrow> (exn + SyntheticMonitor list option) \<times> DynatraceClient" where
  "get_synthetic_monitors self =
     client_get self (ascii ''synthetic/monitors'') (monitors_answer (tenant self))"

text \<open>\<^verbatim>\<open>data.get(key, [])\<close> on the object a request returned.\<close>

definition get_list :: "'a list option \<Rightarrow> 'a list" where
  "get_list data = (case data of None \<Rightarrow> [] | Some xs \<Rightarrow> xs)"

text \<open>The exception a request ends with, if it ends with one that \<^verbatim>\<open>_get\<close> lets through.\<close>

fun raised :: "'a http \<Rightarrow> exn option" where
  "raised (Raises e) = Some e"
| "raised (Json data) = None"
| "raised (RequestException m) = None"

section \<open>Architecture analysis\<close>

text \<open>
  The analyzer object: the client, the issue strings accumulated so far, and the
  metrics dictionary (created empty and never written). Every method takes the object
  and returns it updated, next to its result or the exception it raised.
\<close>

record ArchitectureAnalyzer =
  client :: DynatraceClient
  issues :: "pystr list"
  metrics :: "(pystr, pystr) dict"

definition ArchitectureAnalyzer_init :: "DynatraceClient \<Rightarrow> ArchitectureAnalyzer" where
  "ArchitectureAnalyzer_init c = \<lparr>client = c, issues = [], metrics = []\<rparr>"

type_synonym 'a action = "ArchitectureAnalyzer \<Rightarrow> (exn + 'a) \<times> ArchitectureAnalyzer"

definition and_then :: "'a action \<Rightarrow> ('a \<Rightarrow> 'b action) \<Rightarrow> 'b action" where
  "and_then m f self = (case m self of (Inl e, self') \<Rightarrow> (Inl e, self') | (Inr x, self') \<Rightarrow> f x self')"

text \<open>The dictionaries the checks return; \<open>Skipped\<close> is \<^verbatim>\<open>{"skipped": True}\<close>.\<close>

record problem_detail =
  detail_title :: "pystr option"
  detail_severity :: "pystr option"

record problems_result =
  p_total :: int
  critical :: int
  warnings :: int
  details :: "problem_detail list"

record oneagent_result =
  total_hosts :: int
  monitoring_modes :: "(pystr, int) dict"
  version_count :: int
  top_versions :: "(pystr, int) dict"

record activegate_result =
  ag_total :: int
  ag_connected :: int
  ag_offline :: int

record synthetic_result =
  syn_total :: int
  syn_enabled :: int
  syn_disabled :: int

datatype 'a check = Skipped | Ran 'a

record summary =
  health_score :: int
  status :: pystr
  issues_count :: int
  summary_issues :: "pystr list"

text \<open>The result dictionary of a run; its summary is \<open>None\<close> while it is still \<^verbatim>\<open>{}\<close>.\<close>

record results =
  timestamp :: pystr
  problems :: problems_result
  oneagent :: "oneagent_result check"
  activegate :: "activegate_result check"
  synthetic :: "synthetic_result check"
  summary :: "summary option"

subsection \<open>Problems check\<close>

definition critical_issue :: "int \<Rightarrow> pystr" where
  "critical_issue n = red_circle @ ascii '' '' @ str_int n @ ascii '' critical problems detected''"

definition analyze_problems :: "config \<Rightarrow> problems_result action" where
  "analyze_problems cfg self =
     (case get_problems (client self) (PROBLEM_LOOKBACK_HOURS cfg) of
        (Inl e, c) \<Rightarrow> (Inl e, self\<lparr>client := c\<rparr>)
      | (Inr data, c) \<Rightarrow>
          (let self1 = self\<lparr>client := c\<rparr>;
               problems = get_list data;
               critical = filter (\<lambda>p. severityLevel p = Some (ascii ''ERROR'')) problems;
               warnings = filter (\<lambda>p. severityLevel p = Some (ascii ''WARNING'')) problems;
               self2 = (if length critical > 0
                        then self1\<lparr>issues := issues self1 @ [critical_issue (int (length critical))]\<rparr>
                        else self1)
           in (Inr \<lparr>p_total = int (length problems),
                    critical = int (length critical),
                    warnings = int (length warnings),
                    details = map (\<lambda>p. \<lparr>detail_title = title p, detail_severity = severityLevel p\<rparr>)
                                  (take 5 problems)\<rparr>,
               self2)))"

subsection \<open>Fleet check\<close>

text \<open>
  \<^verbatim>\<open>entity.get("properties", {})\<close> followed by the two \<^verbatim>\<open>props.get(..., "unknown")\<close>.
\<close>

definition props_of :: "HostEntity \<Rightarrow> host_properties" where
  "props_of entity =
     (case properties entity of
        None \<Rightarrow> \<lparr>monitoringMode = None, installerVersion = None\<rparr>
      | Some props \<Rightarrow> props)"

definition mode_of :: "HostEntity \<Rightarrow> pystr" where
  "mode_of entity =
     (case monitoringMode (props_of entity) of None \<Rightarrow> ascii ''unknown'' | Some mode \<Rightarrow> mode)"

definition version_of :: "HostEntity \<Rightarrow> pystr" where
  "version_of entity =
     (case installerVersion (props_of entity) of None \<Rightarrow> ascii ''unknown'' | Some version \<Rightarrow> version)"

text \<open>
  The loop over the entities, from the two empty tallies; \<open>bump d k\<close> is
  \<^verbatim>\<open>d[k] = d.get(k, 0) + 1\<close>.
\<close>

definition bump :: "('k, int) dict \<Rightarrow> 'k \<Rightarrow> ('k, int) dict" where
  "bump d k = dict_set d k (dict_get d k 0 + 1)"

definition count_entity ::
  "HostEntity \<Rightarrow> (pystr, int) dict \<times> (pystr, int) dict \<Rightarrow> (pystr, int) dict \<times> (pystr, int) dict" where
  "count_entity entity = (\<lambda>(monitoring_modes, versions).
     (let mode = mode_of entity;
          version = version_of entity
      in (bump monitoring_modes mode, bump versions version)))"

definition tally :: "HostEntity list \<Rightarrow> (pystr, int) dict \<times> (pystr, int) dict" where
  "tally entities = fold count_entity entities ([], [])"

definition fragmentation_issue :: "int \<Rightarrow> pystr" where
  "fragmentation_issue n =
     warning_sign @ ascii '' OneAgent version fragmentation: '' @ str_int n @ ascii '' different versions''"

definition top3 :: "(pystr, int) dict \<Rightarrow> (pystr, int) dict" where
  "top3 versions = dict_of (take 3 (sorted_reverse snd versions))"

definition analyze_oneagent :: "config \<Rightarrow> oneagent_result check action" where
  "analyze_oneagent cfg self =
     (if \<not> CHECK_ONEAGENT_HEALTH cfg then (Inr Skipped, self)
      else case get_oneagent_info (client self) of
        (Inl e, c) \<Rightarrow> (Inl e, self\<lparr>client := c\<rparr>)
      | (Inr data, c) \<Rightarrow>
          (let self1 = self\<lparr>client := c\<rparr>;
               entities = get_list data;
               (monitoring_modes, versions) = tally entities;
               self2 = (if length versions > 3
                        then self1\<lparr>issues := issues self1 @ [fragmentation_issue (int (length versions))]\<rparr>
                        else self1)
           in (Inr (Ran \<lparr>total_hosts = int (length entities),
                         monitoring_modes = monitoring_modes,
                         version_count = int (length versions),
                         top_versions = top3 versions\<rparr>),
               self2)))"

subsection \<open>Gateway check\<close>

definition offline_issue :: "int \<Rightarrow> pystr" where
  "offline_issue n = red_circle @ ascii '' '' @ str_int n @ ascii '' ActiveGate(s) offline''"

definition analyze_activegate :: "config \<Rightarrow> activegate_result check action" where
  "analyze_activegate cfg self =
     (if \<not> CHECK_ACTIVEGATE_HEALTH cfg then (Inr Skipped, self)
      else case get_activegates (client self) of
        (Inl e, c) \<Rightarrow> (Inl e, self\<lparr>client := c\<rparr>)
      | (Inr data, c) \<Rightarrow>
          (let self1 = self\<lparr>client := c\<rparr>;
               activegates = get_list data;
               total = int (length activegates);
               connected = int (length (filter (\<lambda>ag. connected ag = Some True) activegates));
               offline = total - connected;
               self2 = (if offline > 0
                        then self1\<lparr>issues := issues self1 @ [offline_issue offline]\<rparr>
                        else self1)
           in (Inr (Ran \<lparr>ag_total = total, ag_connected = connected, ag_offline = offline\<rparr>),
               self2)))"

subsection \<open>Synthetic check\<close>

definition analyze_synthetic :: "config \<Rightarrow> synthetic_result check action" where
  "analyze_synthetic cfg self =
     (if \<not> CHECK_SYNTHETIC_MONITORS cfg then (Inr Skipped, self)
      else case get_synthetic_monitors (client self) of
        (Inl e, c) \<Rightarrow> (Inl e, self\<lparr>client := c\<rparr>)
      | (Inr data, c) \<Rightarrow>
          (let self1 = self\<lparr>client := c\<rparr>;
               monitors = get_list data;
               enabled = int (length (filter (\<lambda>m. enabled m = Some True) monitors));
               disabled = int (length monitors) - enabled
           in (Inr (Ran \<lparr>syn_total = int (length monitors), syn_enabled = enabled,
                         syn_disabled = disabled\<rparr>),
               self1)))"

subsection \<open>Summary\<close>

text \<open>\<^verbatim>\<open>ag.get("offline", 0)\<close>: a skipped gateway check has no such key.\<close>

definition offline_or_0 :: "activegate_result check \<Rightarrow> int" where
  "offline_or_0 ag = (case ag of Skipped \<Rightarrow> 0 | Ran r \<Rightarrow> ag_offline r)"

definition generate_summary :: "ArchitectureAnalyzer \<Rightarrow> results \<Rightarrow> summary" where
  "generate_summary self res =
     (let score = 100;
          score = score - critical (problems res) * 10;
          score = score - warnings (problems res) * 2;
          score = score - offline_or_0 (activegate res) * 15;
          score = max 0 (min 100 score);
          label = (if score \<ge> 90 then green_circle @ ascii '' Healthy''
                   else if score \<ge> 70 then yellow_circle @ ascii '' Needs Attention''
                   else red_circle @ ascii '' Critical'')
      in \<lparr>health_score = score, status = label,
          issues_count = int (length (issues self)), summary_issues = issues self\<rparr>)"

subsection \<open>The whole analysis\<close>

text \<open>
  The dictionary literal evaluates the four checks in order; an exception in one of
  them ends the analysis there. \<open>now_iso\<close> is the clock reading the result is stamped
  with.
\<close>

definition analyze_all :: "config \<Rightarrow> pystr \<Rightarrow> results action" where
  "analyze_all cfg now_iso =
     and_then (analyze_problems cfg) (\<lambda>p.
     and_then (analyze_oneagent cfg) (\<lambda>oa.
     and_then (analyze_activegate cfg) (\<lambda>ag.
     and_then (analyze_synthetic cfg) (\<lambda>syn self.
       (let res = \<lparr>timestamp = now_iso, problems = p, oneagent = oa, activegate = ag,
                   synthetic = syn, summary = None\<rparr>
        in (Inr (res\<lparr>summary := Some (generate_summary self res)\<rparr>), self))))))"

section \<open>Report generation\<close>

definition fetch_dynatrace_updates :: pystr where
  "fetch_dynatrace_updates =
     newspaper @ ascii '' Check docs.dynatrace.com/docs/whats-new for latest updates''"

text \<open>The three report templates, before the final \<^verbatim>\<open>strip\<close>.\<close>

definition setup_report :: "pystr \<Rightarrow> pystr" where
  "setup_report now = concat
     [nl,
      bell @ ascii '' Dynatrace Daily Report'' @ nl,
      calendar @ ascii '' '' @ now @ nl,
      nl,
      warning_sign @ ascii '' SETUP REQUIRED'' @ nl,
      ascii ''Configure your Dynatrace credentials in:'' @ nl,
      ascii ''~/dynatrace_agent/config.env'' @ nl,
      nl,
      ascii ''Once configured, you'' @ [39] @ ascii ''ll receive:'' @ nl,
      bullet @ ascii '' Problem summary'' @ nl,
      bullet @ ascii '' OneAgent fleet health  '' @ nl,
      bullet @ ascii '' ActiveGate status'' @ nl,
      bullet @ ascii '' Architecture analysis'' @ nl,
      bullet @ ascii '' Latest DT updates'' @ nl,
      nl,
      books @ ascii '' Setup guide in README.md'' @ nl]"

definition error_report :: "pystr \<Rightarrow> exn \<Rightarrow> pystr" where
  "error_report now e = concat
     [nl,
      bell @ ascii '' Dynatrace Daily Report'' @ nl,
      calendar @ ascii '' '' @ now @ nl,
      nl,
      cross_mark @ ascii '' Error fetching data'' @ nl,
      take 100 (str_exn e) @ nl,
      nl,
      ascii ''Check logs: ~/Library/Logs/dynatrace_agent.log'' @ nl]"

text \<open>\<^verbatim>\<open>d.get(key, 'N/A')\<close> on the dictionary of a check, formatted.\<close>

definition get_or_na :: "'a check \<Rightarrow> ('a \<Rightarrow> int) \<Rightarrow> pystr" where
  "get_or_na c field = (case c of Skipped \<Rightarrow> ascii ''N/A'' | Ran r \<Rightarrow> str_int (field r))"

text \<open>
  The normal report. Reading \<^verbatim>\<open>summary['status']\<close> from an empty summary would be a
  \<^verbatim>\<open>KeyError\<close>.
\<close>

definition normal_report :: "pystr \<Rightarrow> results \<Rightarrow> exn + pystr" where
  "normal_report now res =
     (case summary res of
        None \<Rightarrow> Inl (Exception ([39] @ ascii ''status'' @ [39]))
      | Some summ \<Rightarrow>
          (let report = concat
                 [nl,
                  bell @ ascii '' Dynatrace Daily Report'' @ nl,
                  calendar @ ascii '' '' @ now @ nl,
                  nl,
                  status summ @ ascii '' | Score: '' @ str_int (health_score summ) @ ascii ''/100'' @ nl,
                  nl,
                  bar_chart @ ascii '' PROBLEMS (24h)'' @ nl,
                  bullet @ ascii '' Critical: '' @ str_int (critical (problems res)) @ nl,
                  bullet @ ascii '' Warnings: '' @ str_int (warnings (problems res)) @ nl,
                  bullet @ ascii '' Total: '' @ str_int (p_total (problems res)) @ nl,
                  nl,
                  desktop_computer @ ascii '' ONEAGENT FLEET'' @ nl,
                  bullet @ ascii '' Total Hosts: '' @ get_or_na (oneagent res) total_hosts @ nl,
                  bullet @ ascii '' Versions in use: '' @ get_or_na (oneagent res) version_count @ nl,
                  nl,
                  globe @ ascii '' ACTIVEGATES'' @ nl,
                  bullet @ ascii '' Connected: '' @ get_or_na (activegate res) ag_connected
                    @ ascii ''/'' @ get_or_na (activegate res) ag_total @ nl,
                  nl];
               report = (if summary_issues summ \<noteq> []
                         then report @ warning_sign @ ascii '' ISSUES:'' @ nl
                              @ concat (map (\<lambda>issue. bullet @ ascii '' '' @ issue @ nl)
                                            (take 5 (summary_issues summ)))
                         else report)
           in Inr (report @ nl @ fetch_dynatrace_updates)))"

text \<open>The body of the \<^verbatim>\<open>try\<close> block: the report, or the exception, and the requests made.\<close>

definition real_mode :: "config \<Rightarrow> pystr \<Rightarrow> pystr \<Rightarrow> server \<Rightarrow> (exn + pystr) \<times> pystr list" where
  "real_mode cfg now now_iso srv =
     (let c = DynatraceClient_init (DYNATRACE_TENANT_URL cfg) (DYNATRACE_API_TOKEN cfg) srv;
          analyzer = ArchitectureAnalyzer_init c
      in case analyze_all cfg now_iso analyzer of
           (Inl e, analyzer') \<Rightarrow> (Inl e, requested (client analyzer'))
         | (Inr res, analyzer') \<Rightarrow> (normal_report now res, requested (client analyzer')))"

text \<open>
  \<^verbatim>\<open>generate_daily_report\<close>, given the two clock readings (the formatted report time
  and the analysis time stamp) and the tenant. It returns the report, or raises what
  the \<^verbatim>\<open>except Exception\<close> clause does not catch; next to that, the URLs requested
  on the way.
\<close>

definition generate_daily_report ::
  "config \<Rightarrow> pystr \<Rightarrow> pystr \<Rightarrow> server \<Rightarrow> (exn + pystr) \<times> pystr list" where
  "generate_daily_report cfg now now_iso srv =
     (if contains (DYNATRACE_TENANT_URL cfg) (ascii ''YOUR_'')
         \<or> contains (DYNATRACE_API_TOKEN cfg) (ascii ''YOUR_'')
      then (Inr (strip (setup_report now)), [])
      else case real_mode cfg now now_iso srv of
             (Inr report, reqs) \<Rightarrow> (Inr (strip report), reqs)
           | (Inl e, reqs) \<Rightarrow>
               (if isinstance_Exception e then (Inr (strip (error_report now e)), reqs)
                else (Inl e, reqs)))"

section \<open>Notification\<close>

text \<open>
  The two AppleScript programs, identified by their template and the recipient and
  message spliced into it, and what \<^verbatim>\<open>subprocess.run\<close> does with one: it returns an
  exit status, raises \<^verbatim>\<open>TimeoutExpired\<close> (an instance of \<^verbatim>\<open>Exception\<close>), or raises
  something else. \<open>shell\<close> is the machine the scripts run on.
\<close>

datatype osascript = SendScript pystr pystr | KeystrokeScript pystr pystr

datatype completed = Returncode int | TimeoutExpired | OtherError exn

type_synonym shell = "osascript \<Rightarrow> completed"

text \<open>
  Both functions return their result, or raise what their \<^verbatim>\<open>except Exception\<close>
  clause does not catch; next to that, the scripts they ran, in order.
\<close>

definition send_imessage_fallback ::
  "shell \<Rightarrow> pystr \<Rightarrow> pystr \<Rightarrow> (exn + bool) \<times> osascript list" where
  "send_imessage_fallback run recipient message =
     (let applescript = KeystrokeScript recipient message
      in case run applescript of
           Returncode rc \<Rightarrow> (Inr (rc = 0), [applescript])
         | TimeoutExpired \<Rightarrow> (Inr False, [applescript])
         | OtherError e \<Rightarrow>
             (if isinstance_Exception e then (Inr False, [applescript])
              else (Inl e, [applescript])))"

definition escape :: "pystr \<Rightarrow> pystr" where
  "escape message = replace_char 39 [92, 39] (replace_char 34 [92, 34] message)"

definition send_imessage ::
  "shell \<Rightarrow> pystr \<Rightarrow> pystr \<Rightarrow> (exn + bool) \<times> osascript list" where
  "send_imessage run recipient message0 =
     (let message = escape message0;
          applescript = SendScript recipient message
      in case run applescript of
           Returncode rc \<Rightarrow>
             (if rc = 0 then (Inr True, [applescript])
              else (let (ok, ran) = send_imessage_fallback run recipient message
                    in (ok, applescript # ran)))
         | TimeoutExpired \<Rightarrow> (Inr False, [applescript])
         | OtherError e \<Rightarrow>
             (if isinstance_Exception e then (Inr False, [applescript])
              else (Inl e, [applescript])))"

section \<open>Main execution\<close>



section \<open>Example inputs\<close>

text \<open>
  A configured tenant with all checks enabled; a fleet of ten hosts on four agent
  versions; and a tenant with three open problems, that fleet, two gateways of which
  one is offline, and a monitors request that fails.
\<close>

definition example_config :: config where
  "example_config =
     \<lparr>DYNATRACE_TENANT_URL = ascii ''https://abc12345.live.dynatrace.com'',
      DYNATRACE_API_TOKEN = ascii ''dt0c01.SAMPLE'',
      IMESSAGE_RECIPIENT = ascii ''+15550100'',
      PROBLEM_LOOKBACK_HOURS = 24,
      CHECK_ONEAGENT_HEALTH = True,
      CHECK_ACTIVEGATE_HEALTH = True,
      CHECK_SYNTHETIC_MONITORS = True,
      LOG_FILE = ascii ''~/Library/Logs/dynatrace_agent.log''\<rparr>"

definition example_host :: "string \<Rightarrow> HostEntity" where
  "example_host v =
     \<lparr>properties = Some \<lparr>monitoringMode = Some (ascii ''FULL_STACK''),
                          installerVersion = Some (ascii v)\<rparr>\<rparr>"

definition example_fleet :: "HostEntity list" where
  "example_fleet =
     replicate 5 (example_host ''1.0'') @ replicate 3 (example_host ''1.1'')
       @ [example_host ''1.2'', example_host ''1.3'']"

definition example_problems :: "ProblemRecord list" where
  "example_problems =
     [\<lparr>title = Some (ascii ''CPU saturation''), severityLevel = Some (ascii ''ERROR'')\<rparr>,
      \<lparr>title = None, severityLevel = Some (ascii ''WARNING'')\<rparr>,
      \<lparr>title = Some (ascii ''Deployment''), severityLevel = Some (ascii ''INFO'')\<rparr>]"

definition example_server :: server where
  "example_server =
     \<lparr>problems_answer = Json (Some example_problems),
      entities_answer = Json (Some example_fleet),
      activeGates_answer = Json (Some [\<lparr>connected = Some True\<rparr>, \<lparr>connected = None\<rparr>]),
      monitors_answer = RequestException (ascii ''timed out'')\<rparr>"

definition example_analyzer :: ArchitectureAnalyzer where
  "example_analyzer =
     ArchitectureAnalyzer_init
       (DynatraceClient_init (DYNATRACE_TENANT_URL example_config)
          (DYNATRACE_API_TOKEN example_config) example_server)"

text \<open>
  A tenant whose hosts lack some or all of their properties, and an analyzer for it.
\<close>

definition sparse_fleet :: "HostEntity list" where
  "sparse_fleet =
     [\<lparr>properties = None\<rparr>,
      example_host ''1.0'',
      \<lparr>properties = Some \<lparr>monitoringMode = None, installerVersion = Some (ascii ''1.0'')\<rparr>\<rparr>,
      \<lparr>properties = Some \<lparr>monitoringMode = Some (ascii ''FULL_STACK''), installerVersion = None\<rparr>\<rparr>]"

definition sparse_analyzer :: ArchitectureAnalyzer where
  "sparse_analyzer =
     ArchitectureAnalyzer_init
       (DynatraceClient_init (DYNATRACE_TENANT_URL example_config)
          (DYNATRACE_API_TOKEN example_config)
          (example_server\<lparr>entities_answer := Json (Some sparse_fleet)\<rparr>))"


text \<open>
  A result dictionary with given critical, warning and offline counts, before its
  summary is computed.
\<close>

definition results_with :: "int \<Rightarrow> int \<Rightarrow> int \<Rightarrow> results" where
  "results_with c w off =
     \<lparr>timestamp = [],
      problems = \<lparr>p_total = c + w, critical = c, warnings = w, details = []\<rparr>,
      oneagent = Skipped,
      activegate = Ran \<lparr>ag_total = off, ag_connected = 0, ag_offline = off\<rparr>,
      synthetic = Skipped,
      summary = None\<rparr>"

text \<open>
  \<^verbatim>\<open>CONFIG\<close> as the module builds it when the environment sets none of its keys; a
  configuration whose token and recipient are genuine values that happen to contain
  the marker substrings; and a tenant whose gateway request raises an exception with a
  message of 150 characters.
\<close>

definition default_config :: config where
  "default_config =
     \<lparr>DYNATRACE_TENANT_URL = placeholder_tenant_url,
      DYNATRACE_API_TOKEN = placeholder_api_token,
      IMESSAGE_RECIPIENT = placeholder_recipient,
      PROBLEM_LOOKBACK_HOURS = 24,
      CHECK_ONEAGENT_HEALTH = True,
      CHECK_ACTIVEGATE_HEALTH = True,
      CHECK_SYNTHETIC_MONITORS = True,
      LOG_FILE = ascii ''~/Library/Logs/dynatrace_agent.log''\<rparr>"


definition raising_server :: server where
  "raising_server = example_server\<lparr>activeGates_answer := Raises (Exception (replicate 150 120))\<rparr>"

text \<open>The same tenant, with the process interrupted while the gateway request is under way.\<close>

definition interrupted_server :: server where
  "interrupted_server = example_server\<lparr>activeGates_answer := Raises KeyboardInterrupt\<rparr>"

text \<open>
  Two machines: one on which \<^verbatim>\<open>osascript\<close> cannot be started, so that every
  \<^verbatim>\<open>subprocess.run\<close> raises, and one on which the direct script exits with status 1
  and the keystroke script with status 0.
\<close>

definition failing_shell :: shell where
  "failing_shell script = OtherError (Exception (ascii ''No such file or directory''))"

fun exit_one_shell :: shell where
  "exit_one_shell (SendScript recipient message) = Returncode 1"
| "exit_one_shell (KeystrokeScript recipient message) = Returncode 0"

section \<open>Properties of the string operations\<close>

lemma ascii_Nil: "ascii [] = []"
  by (simp add: ascii_def)

lemma ascii_Cons: "ascii (c # cs) = of_char c # ascii cs"
  by (simp add: ascii_def)

lemma startswith_iff: "startswith s p \<longleftrightarrow> (\<exists>r. s = p @ r)"
  by (induction s p rule: startswith.induct) auto


lemma rstrip_keep: "xs \<noteq> [] \<Longrightarrow> \<not> P (last xs) \<Longrightarrow> rstrip_chars P xs = xs"
  by (cases xs rule: rev_cases) (auto simp: rstrip_chars_def)

lemma rstrip_snoc_drop: "P w \<Longrightarrow> rstrip_chars P (xs @ [w]) = rstrip_chars P xs"
  by (simp add: rstrip_chars_def)

text \<open>
  A text between two newlines that neither starts nor ends with whitespace is what
  \<open>strip\<close> leaves of it.
\<close>

lemma strip_wrap:
  assumes "xs \<noteq> []" "\<not> isspace (hd xs)" "\<not> isspace (last xs)"
  shows "strip (nl @ xs @ nl) = xs"
proof -
  have sp: "isspace 10" by (simp add: isspace_def)
  obtain a as where xs: "xs = a # as" using assms(1) by (cases xs) auto
  have "dropWhile isspace (nl @ xs @ nl) = xs @ nl"
    using assms(2) sp by (simp add: nl_def xs)
  moreover have "rstrip_chars isspace (xs @ nl) = xs"
    using assms sp by (simp add: nl_def rstrip_snoc_drop rstrip_keep)
  ultimately show ?thesis by (simp add: strip_def)
qed

section \<open>Properties of dictionaries, tallies and sorting\<close>

lemma map_of_graph: "map_of (map (\<lambda>x. (x, g x)) xs) k = (if k \<in> set xs then Some (g k) else None)"
  by (induction xs) auto

lemma update_graph:
  "distinct xs \<Longrightarrow> AList.update k v (map (\<lambda>x. (x, g x)) xs) =
     (if k \<in> set xs then map (\<lambda>x. (x, if x = k then v else g x)) xs
      else map (\<lambda>x. (x, g x)) xs @ [(k, v)])"
  by (induction xs) auto

lemma fold_bump:
  "fold (\<lambda>k d. bump d k) ks [] = map (\<lambda>k. (k, int (count_list ks k))) (rev (remdups (rev ks)))"
proof (induction ks rule: rev_induct)
  case Nil
  show ?case by simp
next
  case (snoc k ks)
  let ?F = "rev (remdups (rev ks))"
  have d: "distinct ?F" and s: "set ?F = set ks" by simp_all
  show ?case
  proof (cases "k \<in> set ks")
    case True
    then show ?thesis
      using snoc d s
      by (simp add: bump_def dict_set_def dict_get_def update_graph map_of_graph)
  next
    case False
    then show ?thesis
      using snoc d s
      by (auto simp add: bump_def dict_set_def dict_get_def update_graph map_of_graph)
  qed
qed

lemma fold_count_entity:
  "fold count_entity es (m, v) =
     (fold (\<lambda>k d. bump d k) (map mode_of es) m, fold (\<lambda>k d. bump d k) (map version_of es) v)"
  by (induction es arbitrary: m v) (simp_all add: count_entity_def Let_def)

lemma tally_eq:
  "tally es =
     (map (\<lambda>k. (k, int (count_list (map mode_of es) k))) (rev (remdups (rev (map mode_of es)))),
      map (\<lambda>k. (k, int (count_list (map version_of es) k))) (rev (remdups (rev (map version_of es)))))"
  by (simp add: tally_def fold_count_entity fold_bump)

lemma sum_list_int_map: "sum_list (map (\<lambda>k. int (g k)) xs) = int (sum_list (map g xs))"
  by (induction xs) auto

lemma sum_counts:
  "sum_list (map snd (map (\<lambda>k. (k, int (count_list ks k))) (rev (remdups (rev ks))))) = int (length ks)"
proof -
  let ?F = "rev (remdups (rev ks))"
  have "sum_list (map (\<lambda>k. count_list ks k) ?F) = sum (count_list ks) (set ?F)"
    by (rule sum_list_distinct_conv_sum_set) simp
  also have "\<dots> = length ks" by (simp add: sum_count_set)
  finally have "int (sum_list (map (\<lambda>k. count_list ks k) ?F)) = int (length ks)" by simp
  then show ?thesis by (simp add: comp_def sum_list_int_map)
qed

lemma update_new: "k \<notin> fst ` set al \<Longrightarrow> AList.update k v al = al @ [(k, v)]"
  by (induction al) auto

lemma fold_dict_set:
  "distinct (map fst (acc @ ps)) \<Longrightarrow> fold (\<lambda>(k, v) d. dict_set d k v) ps acc = acc @ ps"
proof (induction ps arbitrary: acc)
  case Nil
  show ?case by simp
next
  case (Cons p ps)
  obtain k v where p: "p = (k, v)" by (cases p)
  from Cons.prems have "k \<notin> fst ` set acc" by (auto simp: p)
  then have u: "dict_set acc k v = acc @ [(k, v)]" by (simp add: dict_set_def update_new)
  from Cons.prems have "distinct (map fst ((acc @ [(k, v)]) @ ps))" by (simp add: p)
  from Cons.IH[OF this] show ?case by (simp add: p u)
qed

lemma dict_of_distinct: "distinct (map fst ps) \<Longrightarrow> dict_of ps = ps"
  using fold_dict_set[of "[]" ps] by (simp add: dict_of_def)

lemma mset_sorted_reverse: "mset (sorted_reverse f xs) = mset xs"
  by (simp add: sorted_reverse_def)

lemma sorted_reverse_desc: "sorted_wrt (\<lambda>a b. f b \<le> f a) (sorted_reverse f xs)"
proof -
  have "sorted (map f (sort_key f (rev xs)))" by simp
  then show ?thesis by (simp add: sorted_reverse_def sorted_wrt_rev sorted_map)
qed

lemma filter_rev_eq: "filter P (rev xs) = rev (filter P xs)"
  by (induction xs) auto

lemma sorted_reverse_stable:
  "filter (\<lambda>y. f y = c) (sorted_reverse f xs) = filter (\<lambda>y. f y = c) xs"
  by (simp add: sorted_reverse_def filter_rev_eq sort_key_stable)

lemma distinct_keys_sorted_reverse:
  "distinct (map fst xs) \<Longrightarrow> distinct (map fst (sorted_reverse f xs))"
proof -
  assume d: "distinct (map fst xs)"
  have "mset (map fst (sorted_reverse f xs)) = mset (map fst xs)"
    by (simp add: mset_sorted_reverse)
  from mset_eq_imp_distinct_iff[OF this] d show ?thesis by simp
qed

lemma top3_eq: "distinct (map fst versions) \<Longrightarrow> top3 versions = take 3 (sorted_reverse snd versions)"
  unfolding top3_def
  by (rule dict_of_distinct) (simp add: take_map[symmetric] distinct_keys_sorted_reverse)

section \<open>Properties of the client and of the checks\<close>

lemma client_get_ok:
  "raised ans = None \<Longrightarrow> \<exists>data. client_get c ep ans = (Inr data, c\<lparr>requested := requested c @ [base_url c @ ascii ''/api/v2/'' @ ep]\<rparr>)"
  by (cases ans) (simp_all add: client_get_def Let_def)

lemma client_get_raises:
  "raised ans = Some e \<Longrightarrow> client_get c ep ans = (Inl e, c\<lparr>requested := requested c @ [base_url c @ ascii ''/api/v2/'' @ ep]\<rparr>)"
  by (cases ans) (simp_all add: client_get_def Let_def)

lemma analyze_problems_Inr:
  assumes "get_problems (client self) (PROBLEM_LOOKBACK_HOURS cfg) = (Inr data, c)"
  shows "analyze_problems cfg self =
    (Inr \<lparr>p_total = int (length (get_list data)),
          critical = int (length (filter (\<lambda>p. severityLevel p = Some (ascii ''ERROR'')) (get_list data))),
          warnings = int (length (filter (\<lambda>p. severityLevel p = Some (ascii ''WARNING'')) (get_list data))),
          details = map (\<lambda>p. \<lparr>detail_title = title p, detail_severity = severityLevel p\<rparr>) (take 5 (get_list data))\<rparr>,
     if filter (\<lambda>p. severityLevel p = Some (ascii ''ERROR'')) (get_list data) \<noteq> []
     then self\<lparr>client := c, issues := issues self @ [critical_issue (int (length (filter (\<lambda>p. severityLevel p = Some (ascii ''ERROR'')) (get_list data))))]\<rparr>
     else self\<lparr>client := c\<rparr>)"
  using assms by (simp add: analyze_problems_def Let_def)

lemma disjoint_filters:
  "(\<And>x. \<not> (P x \<and> Q x)) \<Longrightarrow> length (filter P xs) + length (filter Q xs) \<le> length xs"
  by (induction xs) auto

lemma error_not_warning: "ascii ''ERROR'' \<noteq> ascii ''WARNING''"
  by (simp add: ascii_def)


lemma analyze_oneagent_skip:
  "\<not> CHECK_ONEAGENT_HEALTH cfg \<Longrightarrow> analyze_oneagent cfg self = (Inr Skipped, self)"
  by (simp add: analyze_oneagent_def)

lemma analyze_activegate_skip:
  "\<not> CHECK_ACTIVEGATE_HEALTH cfg \<Longrightarrow> analyze_activegate cfg self = (Inr Skipped, self)"
  by (simp add: analyze_activegate_def)

lemma analyze_synthetic_skip:
  "\<not> CHECK_SYNTHETIC_MONITORS cfg \<Longrightarrow> analyze_synthetic cfg self = (Inr Skipped, self)"
  by (simp add: analyze_synthetic_def)

lemma analyze_oneagent_Inr:
  assumes "CHECK_ONEAGENT_HEALTH cfg" "get_oneagent_info (client self) = (Inr data, c)"
  shows "analyze_oneagent cfg self =
    (Inr (Ran \<lparr>total_hosts = int (length (get_list data)),
               monitoring_modes = fst (tally (get_list data)),
               version_count = int (length (snd (tally (get_list data)))),
               top_versions = top3 (snd (tally (get_list data)))\<rparr>),
     if 3 < length (snd (tally (get_list data)))
     then self\<lparr>client := c, issues := issues self @ [fragmentation_issue (int (length (snd (tally (get_list data)))))]\<rparr>
     else self\<lparr>client := c\<rparr>)"
  using assms by (simp add: analyze_oneagent_def Let_def split: prod.splits)

lemma analyze_activegate_Inr:
  assumes "CHECK_ACTIVEGATE_HEALTH cfg" "get_activegates (client self) = (Inr data, c)"
  shows "analyze_activegate cfg self =
    (Inr (Ran \<lparr>ag_total = int (length (get_list data)),
               ag_connected = int (length (filter (\<lambda>ag. connected ag = Some True) (get_list data))),
               ag_offline = int (length (get_list data))
                            - int (length (filter (\<lambda>ag. connected ag = Some True) (get_list data)))\<rparr>),
     if 0 < int (length (get_list data)) - int (length (filter (\<lambda>ag. connected ag = Some True) (get_list data)))
     then self\<lparr>client := c, issues := issues self @ [offline_issue (int (length (get_list data))
                            - int (length (filter (\<lambda>ag. connected ag = Some True) (get_list data))))]\<rparr>
     else self\<lparr>client := c\<rparr>)"
  using assms by (simp add: analyze_activegate_def Let_def)

lemma analyze_synthetic_Inr:
  assumes "CHECK_SYNTHETIC_MONITORS cfg" "get_synthetic_monitors (client self) = (Inr data, c)"
  shows "analyze_synthetic cfg self =
    (Inr (Ran \<lparr>syn_total = int (length (get_list data)),
               syn_enabled = int (length (filter (\<lambda>m. enabled m = Some True) (get_list data))),
               syn_disabled = int (length (get_list data))
                            - int (length (filter (\<lambda>m. enabled m = Some True) (get_list data)))\<rparr>),
     self\<lparr>client := c\<rparr>)"
  using assms by (simp add: analyze_synthetic_def Let_def)

text \<open>A check that does not raise leaves the tenant as it was.\<close>

lemma analyze_problems_ok:
  assumes "raised (problems_answer (tenant (client self))) = None"
  shows "\<exists>p s1. analyze_problems cfg self = (Inr p, s1) \<and> tenant (client s1) = tenant (client self)"
proof -
  obtain data where "get_problems (client self) (PROBLEM_LOOKBACK_HOURS cfg)
      = (Inr data, (client self)\<lparr>requested := requested (client self) @ [base_url (client self) @ ascii ''/api/v2/'' @ ascii ''problems'']\<rparr>)"
    using client_get_ok[OF assms] unfolding get_problems_def by blast
  from analyze_problems_Inr[OF this] show ?thesis by (auto split: if_splits)
qed

lemma analyze_oneagent_ok:
  assumes "raised (entities_answer (tenant (client self))) = None"
  shows "\<exists>r s1. analyze_oneagent cfg self = (Inr r, s1) \<and> tenant (client s1) = tenant (client self)"
proof (cases "CHECK_ONEAGENT_HEALTH cfg")
  case False
  then show ?thesis by (simp add: analyze_oneagent_skip)
next
  case True
  obtain data where "get_oneagent_info (client self)
      = (Inr data, (client self)\<lparr>requested := requested (client self) @ [base_url (client self) @ ascii ''/api/v2/'' @ ascii ''entities'']\<rparr>)"
    using client_get_ok[OF assms] unfolding get_oneagent_info_def by blast
  from analyze_oneagent_Inr[OF True this] show ?thesis by (auto split: if_splits)
qed

lemma analyze_activegate_ok:
  assumes "raised (activeGates_answer (tenant (client self))) = None"
  shows "\<exists>r s1. analyze_activegate cfg self = (Inr r, s1) \<and> tenant (client s1) = tenant (client self)"
proof (cases "CHECK_ACTIVEGATE_HEALTH cfg")
  case False
  then show ?thesis by (simp add: analyze_activegate_skip)
next
  case True
  obtain data where "get_activegates (client self)
      = (Inr data, (client self)\<lparr>requested := requested (client self) @ [base_url (client self) @ ascii ''/api/v2/'' @ ascii ''activeGates'']\<rparr>)"
    using client_get_ok[OF assms] unfolding get_activegates_def by blast
  from analyze_activegate_Inr[OF True this] show ?thesis by (auto split: if_splits)
qed

lemma analyze_synthetic_ok:
  assumes "raised (monitors_answer (tenant (client self))) = None"
  shows "\<exists>r s1. analyze_synthetic cfg self = (Inr r, s1) \<and> tenant (client s1) = tenant (client self)"
proof (cases "CHECK_SYNTHETIC_MONITORS cfg")
  case False
  then show ?thesis by (simp add: analyze_synthetic_skip)
next
  case True
  obtain data where "get_synthetic_monitors (client self)
      = (Inr data, (client self)\<lparr>requested := requested (client self) @ [base_url (client self) @ ascii ''/api/v2/'' @ ascii ''synthetic/monitors'']\<rparr>)"
    using client_get_ok[OF assms] unfolding get_synthetic_monitors_def by blast
  from analyze_synthetic_Inr[OF True this] show ?thesis by auto
qed

lemma and_then_Inr:
  "and_then m f s = (Inr y, s') \<longleftrightarrow> (\<exists>x s1. m s = (Inr x, s1) \<and> f x s1 = (Inr y, s'))"
  by (cases "m s" rule: prod.exhaust; cases "fst (m s)") (auto simp: and_then_def)




lemma analyze_all_ok:
  assumes "raised (problems_answer (tenant (client self))) = None"
      "raised (entities_answer (tenant (client self))) = None"
      "raised (activeGates_answer (tenant (client self))) = None"
      "raised (monitors_answer (tenant (client self))) = None"
  shows "\<exists>res self'. analyze_all cfg now_iso self = (Inr res, self')"
proof -
  obtain p s1 where 1: "analyze_problems cfg self = (Inr p, s1)" and t1: "tenant (client s1) = tenant (client self)"
    using analyze_problems_ok[OF assms(1), where cfg=cfg] by blast
  obtain oa s2 where 2: "analyze_oneagent cfg s1 = (Inr oa, s2)" and t2: "tenant (client s2) = tenant (client s1)"
    using analyze_oneagent_ok[where self=s1 and cfg=cfg] assms(2) t1 by auto
  obtain ag s3 where 3: "analyze_activegate cfg s2 = (Inr ag, s3)" and t3: "tenant (client s3) = tenant (client s2)"
    using analyze_activegate_ok[where self=s2 and cfg=cfg] assms(3) t1 t2 by auto
  obtain syn s4 where 4: "analyze_synthetic cfg s3 = (Inr syn, s4)"
    using analyze_synthetic_ok[where self=s3 and cfg=cfg] assms(4) t1 t2 t3 by auto
  show ?thesis
    unfolding analyze_all_def and_then_Inr Let_def using 1 2 3 4 by simp
qed

lemma health_score_eq:
  "health_score (generate_summary s r) =
     max 0 (min 100 (100 - critical (problems r) * 10 - warnings (problems r) * 2
                       - offline_or_0 (activegate r) * 15))"
  by (simp add: generate_summary_def Let_def)

lemma example_tenant: "tenant (client example_analyzer) = example_server"
  by (simp add: example_analyzer_def ArchitectureAnalyzer_init_def DynatraceClient_init_def)

lemma results_with_simps:
  "critical (problems (results_with c w off)) = c"
  "warnings (problems (results_with c w off)) = w"
  "offline_or_0 (activegate (results_with c w off)) = off"
  by (simp_all add: results_with_def offline_or_0_def)

lemma example_base_url:
  "base_url (client example_analyzer) = ascii ''https://abc12345.live.dynatrace.com''"
  by (simp add: example_analyzer_def ArchitectureAnalyzer_init_def DynatraceClient_init_def
        example_config_def rstrip_keep ascii_def)




lemma example_issues: "issues example_analyzer = []"
  by (simp add: example_analyzer_def ArchitectureAnalyzer_init_def)


lemma get_oneagent_info_Json:
  "entities_answer (tenant c) = Json data \<Longrightarrow>
   get_oneagent_info c = (Inr data, c\<lparr>requested := requested c @ [base_url c @ ascii ''/api/v2/entities'']\<rparr>)"
proof -
  have "ascii ''/api/v2/'' @ ascii ''entities'' = ascii ''/api/v2/entities''" by (simp add: ascii_def)
  then show "entities_answer (tenant c) = Json data \<Longrightarrow> ?thesis"
    by (simp add: get_oneagent_info_def client_get_def Let_def)
qed

lemma example_versions:
  "map version_of example_fleet =
     [ascii ''1.0'', ascii ''1.0'', ascii ''1.0'', ascii ''1.0'', ascii ''1.0'',
      ascii ''1.1'', ascii ''1.1'', ascii ''1.1'', ascii ''1.2'', ascii ''1.3'']"
  by (simp add: example_fleet_def example_host_def version_of_def props_of_def numeral_eq_Suc)

lemma example_modes:
  "map mode_of example_fleet = replicate 10 (ascii ''FULL_STACK'')"
  by (simp add: example_fleet_def example_host_def mode_of_def props_of_def numeral_eq_Suc)

lemma example_tally:
  "tally example_fleet =
     ([(ascii ''FULL_STACK'', 10)],
      [(ascii ''1.0'', 5), (ascii ''1.1'', 3), (ascii ''1.2'', 1), (ascii ''1.3'', 1)])"
  unfolding tally_eq example_versions example_modes
  by (simp add: ascii_def numeral_eq_Suc)

lemma example_top3:
  "top3 [(ascii ''1.0'', 5), (ascii ''1.1'', 3), (ascii ''1.2'', 1), (ascii ''1.3'', 1)]
     = [(ascii ''1.0'', 5), (ascii ''1.1'', 3), (ascii ''1.2'', 1)]"
  by (simp add: top3_def sorted_reverse_def dict_of_def dict_set_def ascii_def)


lemma example_get_oneagent_info:
  "get_oneagent_info (client example_analyzer)
     = (Inr (Some example_fleet),
        (client example_analyzer)\<lparr>requested := [ascii ''https://abc12345.live.dynatrace.com/api/v2/entities'']\<rparr>)"
proof -
  have r: "requested (client example_analyzer) = []"
    by (simp add: example_analyzer_def ArchitectureAnalyzer_init_def DynatraceClient_init_def)
  have u: "ascii ''https://abc12345.live.dynatrace.com'' @ ascii ''/api/v2/entities''
      = ascii ''https://abc12345.live.dynatrace.com/api/v2/entities''"
    by (simp add: ascii_def)
  have "entities_answer (tenant (client example_analyzer)) = Json (Some example_fleet)"
    by (simp add: example_tenant example_server_def)
  from get_oneagent_info_Json[OF this] show ?thesis
    by (simp add: r u example_base_url)
qed

lemma snd_tally:
  "snd (tally es) = map (\<lambda>k. (k, int (count_list (map version_of es) k)))
                        (rev (remdups (rev (map version_of es))))"
  by (simp add: tally_eq)

lemma fst_tally:
  "fst (tally es) = map (\<lambda>k. (k, int (count_list (map mode_of es) k)))
                        (rev (remdups (rev (map mode_of es))))"
  by (simp add: tally_eq)

lemma keys_graph: "map fst (map (\<lambda>k. (k, g k)) ks) = ks"
  by (induction ks) auto

lemma dict_get_graph:
  "dict_get (map (\<lambda>k. (k, int (count_list ks k))) (rev (remdups (rev ks)))) k 0 = int (count_list ks k)"
  by (simp add: dict_get_def map_of_graph)

lemma count_list_map_filter:
  "count_list (map f es) k = length (filter (\<lambda>e. f e = k) es)"
  by (induction es) auto

lemma mode_of_eq:
  "mode_of e = (case properties e of None \<Rightarrow> ascii ''unknown''
                | Some p \<Rightarrow> (case monitoringMode p of None \<Rightarrow> ascii ''unknown'' | Some m \<Rightarrow> m))"
  by (simp add: mode_of_def props_of_def split: option.splits)

lemma version_of_eq:
  "version_of e = (case properties e of None \<Rightarrow> ascii ''unknown''
                   | Some p \<Rightarrow> (case installerVersion p of None \<Rightarrow> ascii ''unknown'' | Some v \<Rightarrow> v))"
  by (simp add: version_of_def props_of_def split: option.splits)

lemma tally_facts:
  fixes f :: "'a \<Rightarrow> pystr"
  defines "t \<equiv> \<lambda>es. map (\<lambda>k. (k, int (count_list (map f es) k))) (rev (remdups (rev (map f es))))"
  shows "distinct (map fst (t es))"
    and "dict_get (t es) k 0 = int (length (filter (\<lambda>e. f e = k) es))"
    and "sum_list (map snd (t es)) = int (length es)"
proof -
  have "map fst (t es) = rev (remdups (rev (map f es)))"
    unfolding t_def by (rule keys_graph)
  then show "distinct (map fst (t es))" by simp
  have "dict_get (t es) k 0 = int (count_list (map f es) k)"
    unfolding t_def by (rule dict_get_graph)
  then show "dict_get (t es) k 0 = int (length (filter (\<lambda>e. f e = k) es))"
    by (simp add: count_list_map_filter)
  show "sum_list (map snd (t es)) = int (length es)"
    unfolding t_def using sum_counts[of "map f es"] by simp
qed

lemma top3_facts:
  assumes "distinct (map fst versions)"
  shows "length (top3 versions) \<le> 3" "distinct (map fst (top3 versions))"
    "set (top3 versions) \<subseteq> set versions"
proof -
  let ?L = "sorted_reverse snd versions"
  have t: "top3 versions = take 3 ?L" by (rule top3_eq[OF assms])
  show "length (top3 versions) \<le> 3" by (simp add: t)
  have "distinct (map fst ?L)" by (rule distinct_keys_sorted_reverse[OF assms])
  then show "distinct (map fst (top3 versions))"
    by (simp add: t take_map[symmetric])
  have "set ?L = set versions"
    using mset_sorted_reverse[of snd versions] by (rule mset_eq_setD)
  then show "set (top3 versions) \<subseteq> set versions"
    unfolding t using set_take_subset[of 3 ?L] by simp
qed

lemma sparse_entities:
  "entities_answer (tenant (client sparse_analyzer)) = Json (Some sparse_fleet)"
  by (simp add: sparse_analyzer_def ArchitectureAnalyzer_init_def DynatraceClient_init_def)

section \<open>Properties of report generation\<close>

lemma setup_report_split:
  "setup_report now = nl @ concat
     [bell @ ascii '' Dynatrace Daily Report'' @ nl,
      calendar @ ascii '' '' @ now @ nl,
      nl,
      warning_sign @ ascii '' SETUP REQUIRED'' @ nl,
      ascii ''Configure your Dynatrace credentials in:'' @ nl,
      ascii ''~/dynatrace_agent/config.env'' @ nl,
      nl,
      ascii ''Once configured, you'' @ [39] @ ascii ''ll receive:'' @ nl,
      bullet @ ascii '' Problem summary'' @ nl,
      bullet @ ascii '' OneAgent fleet health  '' @ nl,
      bullet @ ascii '' ActiveGate status'' @ nl,
      bullet @ ascii '' Architecture analysis'' @ nl,
      bullet @ ascii '' Latest DT updates'' @ nl,
      nl,
      books @ ascii '' Setup guide in README.md''] @ nl"
  by (simp add: setup_report_def)

lemma strip_setup_report:
  "strip (setup_report now) = concat
     [bell @ ascii '' Dynatrace Daily Report'' @ nl,
      calendar @ ascii '' '' @ now @ nl,
      nl,
      warning_sign @ ascii '' SETUP REQUIRED'' @ nl,
      ascii ''Configure your Dynatrace credentials in:'' @ nl,
      ascii ''~/dynatrace_agent/config.env'' @ nl,
      nl,
      ascii ''Once configured, you'' @ [39] @ ascii ''ll receive:'' @ nl,
      bullet @ ascii '' Problem summary'' @ nl,
      bullet @ ascii '' OneAgent fleet health  '' @ nl,
      bullet @ ascii '' ActiveGate status'' @ nl,
      bullet @ ascii '' Architecture analysis'' @ nl,
      bullet @ ascii '' Latest DT updates'' @ nl,
      nl,
      books @ ascii '' Setup guide in README.md'']"
  unfolding setup_report_split
proof (rule strip_wrap)
  show "concat
     [bell @ ascii '' Dynatrace Daily Report'' @ nl,
      calendar @ ascii '' '' @ now @ nl,
      nl,
      warning_sign @ ascii '' SETUP REQUIRED'' @ nl,
      ascii ''Configure your Dynatrace credentials in:'' @ nl,
      ascii ''~/dynatrace_agent/config.env'' @ nl,
      nl,
      ascii ''Once configured, you'' @ [39] @ ascii ''ll receive:'' @ nl,
      bullet @ ascii '' Problem summary'' @ nl,
      bullet @ ascii '' OneAgent fleet health  '' @ nl,
      bullet @ ascii '' ActiveGate status'' @ nl,
      bullet @ ascii '' Architecture analysis'' @ nl,
      bullet @ ascii '' Latest DT updates'' @ nl,
      nl,
      books @ ascii '' Setup guide in README.md''] \<noteq> []"
    by (simp add: bell_def)
  show "\<not> isspace (hd (concat
     [bell @ ascii '' Dynatrace Daily Report'' @ nl,
      calendar @ ascii '' '' @ now @ nl,
      nl,
      warning_sign @ ascii '' SETUP REQUIRED'' @ nl,
      ascii ''Configure your Dynatrace credentials in:'' @ nl,
      ascii ''~/dynatrace_agent/config.env'' @ nl,
      nl,
      ascii ''Once configured, you'' @ [39] @ ascii ''ll receive:'' @ nl,
      bullet @ ascii '' Problem summary'' @ nl,
      bullet @ ascii '' OneAgent fleet health  '' @ nl,
      bullet @ ascii '' ActiveGate status'' @ nl,
      bullet @ ascii '' Architecture analysis'' @ nl,
      bullet @ ascii '' Latest DT updates'' @ nl,
      nl,
      books @ ascii '' Setup guide in README.md'']))"
    by (simp add: bell_def isspace_def)
  show "\<not> isspace (last (concat
     [bell @ ascii '' Dynatrace Daily Report'' @ nl,
      calendar @ ascii '' '' @ now @ nl,
      nl,
      warning_sign @ ascii '' SETUP REQUIRED'' @ nl,
      ascii ''Configure your Dynatrace credentials in:'' @ nl,
      ascii ''~/dynatrace_agent/config.env'' @ nl,
      nl,
      ascii ''Once configured, you'' @ [39] @ ascii ''ll receive:'' @ nl,
      bullet @ ascii '' Problem summary'' @ nl,
      bullet @ ascii '' OneAgent fleet health  '' @ nl,
      bullet @ ascii '' ActiveGate status'' @ nl,
      bullet @ ascii '' Architecture analysis'' @ nl,
      bullet @ ascii '' Latest DT updates'' @ nl,
      nl,
      books @ ascii '' Setup guide in README.md'']))"
    by (simp add: ascii_Cons ascii_Nil isspace_def)
qed

lemma placeholders_contain_marker:
  "contains placeholder_tenant_url (ascii ''YOUR_'')" "contains placeholder_api_token (ascii ''YOUR_'')"
  by (simp_all add: placeholder_tenant_url_def placeholder_api_token_def ascii_Cons ascii_Nil)

lemma unconfigured_branch:
  "contains (DYNATRACE_TENANT_URL cfg) (ascii ''YOUR_'') \<or> contains (DYNATRACE_API_TOKEN cfg) (ascii ''YOUR_'')
   \<Longrightarrow> generate_daily_report cfg now now_iso srv = (Inr (strip (setup_report now)), [])"
  by (simp add: generate_daily_report_def)

lemma error_report_split:
  "error_report now e = nl @ concat
     [bell @ ascii '' Dynatrace Daily Report'' @ nl,
      calendar @ ascii '' '' @ now @ nl,
      nl,
      cross_mark @ ascii '' Error fetching data'' @ nl,
      take 100 (str_exn e) @ nl,
      nl,
      ascii ''Check logs: ~/Library/Logs/dynatrace_agent.log''] @ nl"
  by (simp add: error_report_def)

lemma strip_error_report:
  "strip (error_report now e) = concat
     [bell @ ascii '' Dynatrace Daily Report'' @ nl,
      calendar @ ascii '' '' @ now @ nl,
      nl,
      cross_mark @ ascii '' Error fetching data'' @ nl,
      take 100 (str_exn e) @ nl,
      nl,
      ascii ''Check logs: ~/Library/Logs/dynatrace_agent.log'']"
  unfolding error_report_split
proof (rule strip_wrap)
  show "concat
     [bell @ ascii '' Dynatrace Daily Report'' @ nl,
      calendar @ ascii '' '' @ now @ nl,
      nl,
      cross_mark @ ascii '' Error fetching data'' @ nl,
      take 100 (str_exn e) @ nl,
      nl,
      ascii ''Check logs: ~/Library/Logs/dynatrace_agent.log''] \<noteq> []"
    by (simp add: bell_def)
  show "\<not> isspace (hd (concat
     [bell @ ascii '' Dynatrace Daily Report'' @ nl,
      calendar @ ascii '' '' @ now @ nl,
      nl,
      cross_mark @ ascii '' Error fetching data'' @ nl,
      take 100 (str_exn e) @ nl,
      nl,
      ascii ''Check logs: ~/Library/Logs/dynatrace_agent.log'']))"
    by (simp add: bell_def isspace_def)
  show "\<not> isspace (last (concat
     [bell @ ascii '' Dynatrace Daily Report'' @ nl,
      calendar @ ascii '' '' @ now @ nl,
      nl,
      cross_mark @ ascii '' Error fetching data'' @ nl,
      take 100 (str_exn e) @ nl,
      nl,
      ascii ''Check logs: ~/Library/Logs/dynatrace_agent.log'']))"
    by (simp add: ascii_Cons ascii_Nil isspace_def)
qed

lemma real_mode_Inl:
  "analyze_all cfg now_iso
     (ArchitectureAnalyzer_init
        (DynatraceClient_init (DYNATRACE_TENANT_URL cfg) (DYNATRACE_API_TOKEN cfg) srv))
     = (Inl e, analyzer')
   \<Longrightarrow> real_mode cfg now now_iso srv = (Inl e, requested (client analyzer'))"
  by (simp add: real_mode_def Let_def)

lemma except_branch:
  assumes "\<not> contains (DYNATRACE_TENANT_URL cfg) (ascii ''YOUR_'')"
      "\<not> contains (DYNATRACE_API_TOKEN cfg) (ascii ''YOUR_'')"
      "real_mode cfg now now_iso srv = (Inl (Exception m), reqs)"
  shows "generate_daily_report cfg now now_iso srv
           = (Inr (strip (error_report now (Exception m))), reqs)"
  using assms by (simp add: generate_daily_report_def)

lemma propagate_branch:
  assumes "\<not> contains (DYNATRACE_TENANT_URL cfg) (ascii ''YOUR_'')"
      "\<not> contains (DYNATRACE_API_TOKEN cfg) (ascii ''YOUR_'')"
      "real_mode cfg now now_iso srv = (Inl e, reqs)"
      "\<not> isinstance_Exception e"
  shows "generate_daily_report cfg now now_iso srv = (Inl e, reqs)"
  using assms by (simp add: generate_daily_report_def)

lemma no_Exception_escapes:
  "fst (generate_daily_report cfg now now_iso srv) \<noteq> Inl (Exception m)"
proof (cases "real_mode cfg now now_iso srv")
  case (Pair r reqs)
  show ?thesis
  proof (cases r)
    case (Inl e)
    with Pair show ?thesis
      by (cases e) (auto simp: generate_daily_report_def)
  next
    case (Inr report)
    with Pair show ?thesis
      by (auto simp: generate_daily_report_def)
  qed
qed

lemma analyze_activegate_raises:
  assumes "CHECK_ACTIVEGATE_HEALTH cfg" "raised (activeGates_answer (tenant (client self))) = Some e"
  shows "\<exists>s'. analyze_activegate cfg self = (Inl e, s')"
  using assms client_get_raises[OF assms(2)]
  by (simp add: analyze_activegate_def get_activegates_def)

lemma analyze_all_gateway_raises:
  assumes "raised (problems_answer (tenant (client self))) = None"
      "raised (entities_answer (tenant (client self))) = None"
      "CHECK_ACTIVEGATE_HEALTH cfg"
      "raised (activeGates_answer (tenant (client self))) = Some e"
  shows "\<exists>s'. analyze_all cfg now_iso self = (Inl e, s')"
proof -
  obtain p s1 where 1: "analyze_problems cfg self = (Inr p, s1)" and t1: "tenant (client s1) = tenant (client self)"
    using analyze_problems_ok[OF assms(1), where cfg=cfg] by blast
  obtain oa s2 where 2: "analyze_oneagent cfg s1 = (Inr oa, s2)" and t2: "tenant (client s2) = tenant (client s1)"
    using analyze_oneagent_ok[where self=s1 and cfg=cfg] assms(2) t1 by auto
  obtain s3 where 3: "analyze_activegate cfg s2 = (Inl e, s3)"
    using analyze_activegate_raises[where self=s2 and cfg=cfg and e=e] assms(3,4) t1 t2 by auto
  show ?thesis
    unfolding analyze_all_def and_then_def using 1 2 3 by simp
qed

lemma example_not_placeholder:
  "\<not> contains (DYNATRACE_TENANT_URL example_config) (ascii ''YOUR_'')"
  "\<not> contains (DYNATRACE_API_TOKEN example_config) (ascii ''YOUR_'')"
  by (simp_all add: example_config_def ascii_Cons ascii_Nil)













lemma example_interrupted:
  "\<exists>s'. analyze_all example_config now_iso
          (ArchitectureAnalyzer_init
             (DynatraceClient_init (DYNATRACE_TENANT_URL example_config)
                (DYNATRACE_API_TOKEN example_config) interrupted_server))
        = (Inl KeyboardInterrupt, s')"
proof (rule analyze_all_gateway_raises)
  let ?a = "ArchitectureAnalyzer_init
             (DynatraceClient_init (DYNATRACE_TENANT_URL example_config)
                (DYNATRACE_API_TOKEN example_config) interrupted_server)"
  have t: "tenant (client ?a) = interrupted_server"
    by (simp add: ArchitectureAnalyzer_init_def DynatraceClient_init_def)
  show "raised (problems_answer (tenant (client ?a))) = None"
    unfolding t by (simp add: interrupted_server_def example_server_def)
  show "raised (entities_answer (tenant (client ?a))) = None"
    unfolding t by (simp add: interrupted_server_def example_server_def)
  show "CHECK_ACTIVEGATE_HEALTH example_config"
    by (simp add: example_config_def)
  show "raised (activeGates_answer (tenant (client ?a))) = Some KeyboardInterrupt"
    unfolding t by (simp add: interrupted_server_def)
qed

section \<open>The example run\<close>








section \<open>The claims\<close>

subsection \<open>Problems check\<close>

text \<open>
  Claim C4. Whenever the problems request returns (an object with or without a
  problem list, or the empty object after a request error), the problems check returns
  a result for the problem list \<open>P\<close> it read: the total is the length of \<open>P\<close>, the
  critical and warning counts are the numbers of entries of severity \<^verbatim>\<open>ERROR\<close> and
  \<^verbatim>\<open>WARNING\<close>, and their sum is at most the total; the detail list is the title and
  severity of the first \<open>min 5 (length P)\<close> problems, in order; and the issue
  "critical problems detected" is appended to the issues exactly when the critical
  count is positive, the issues being left as they were exactly when it is zero.
\<close>

theorem problems_check_counts:
  assumes "get_problems (client self) (PROBLEM_LOOKBACK_HOURS cfg) = (Inr data, c)"
  shows "\<exists>r self'. analyze_problems cfg self = (Inr r, self')
     \<and> p_total r = int (length (get_list data))
     \<and> critical r = int (length (filter (\<lambda>p. severityLevel p = Some (ascii ''ERROR'')) (get_list data)))
     \<and> warnings r = int (length (filter (\<lambda>p. severityLevel p = Some (ascii ''WARNING'')) (get_list data)))
     \<and> critical r + warnings r \<le> p_total r
     \<and> details r = map (\<lambda>p. \<lparr>detail_title = title p, detail_severity = severityLevel p\<rparr>)
                       (take (min 5 (length (get_list data))) (get_list data))
     \<and> length (details r) = min 5 (length (get_list data))
     \<and> (issues self' = issues self @ [critical_issue (critical r)] \<longleftrightarrow> 0 < critical r)
     \<and> (issues self' = issues self \<longleftrightarrow> critical r = 0)"
proof -
  let ?P = "get_list data"
  let ?E = "filter (\<lambda>p. severityLevel p = Some (ascii ''ERROR'')) ?P"
  let ?W = "filter (\<lambda>p. severityLevel p = Some (ascii ''WARNING'')) ?P"
  have le: "length ?E + length ?W \<le> length ?P"
    by (rule disjoint_filters) (auto simp: error_not_warning)
  have tk: "take (min 5 (length ?P)) ?P = take 5 ?P" by (simp add: min_def)
  show ?thesis
    unfolding analyze_problems_Inr[OF assms] tk
    using le by (cases "?E = []") auto
qed


text \<open>The example tenant: three problems, one of them critical and one a warning.\<close>

theorem problems_check_counts_witness:
  "get_problems (client example_analyzer) (PROBLEM_LOOKBACK_HOURS example_config)
     = (Inr (Some example_problems), snd (get_problems (client example_analyzer) 24))
   \<and> (\<exists>r self'. analyze_problems example_config example_analyzer = (Inr r, self')
        \<and> p_total r = 3 \<and> critical r = 1 \<and> warnings r = 1 \<and> length (details r) = 3
        \<and> issues self' = [critical_issue 1])"
proof -
  have h: "get_problems (client example_analyzer) (PROBLEM_LOOKBACK_HOURS example_config)
     = (Inr (Some example_problems), snd (get_problems (client example_analyzer) 24))"
    by (simp add: get_problems_def client_get_def Let_def example_analyzer_def example_server_def
          ArchitectureAnalyzer_init_def DynatraceClient_init_def)
  have e: "filter (\<lambda>p. severityLevel p = Some (ascii ''ERROR'')) example_problems
             = [\<lparr>title = Some (ascii ''CPU saturation''), severityLevel = Some (ascii ''ERROR'')\<rparr>]"
    by (simp add: example_problems_def ascii_def)
  have w: "length (filter (\<lambda>p. severityLevel p = Some (ascii ''WARNING'')) example_problems) = 1"
    by (simp add: example_problems_def ascii_def)
  have i: "issues example_analyzer = []"
    by (simp add: example_analyzer_def ArchitectureAnalyzer_init_def)
  have l: "length example_problems = 3" by (simp add: example_problems_def)
  show ?thesis
    using h problems_check_counts[OF h] by (auto simp: get_list_def e w i l)
qed

subsection \<open>Summary\<close>



text \<open>
  Claim C5. The health score does not increase when the critical count, the warning
  count and the offline count all stay or grow, and it lies between 0 and 100 for
  every input, counts of any size or sign included.
\<close>

theorem health_score_monotone_bounded:
  "(critical (problems r1) \<le> critical (problems r2)
      \<and> warnings (problems r1) \<le> warnings (problems r2)
      \<and> offline_or_0 (activegate r1) \<le> offline_or_0 (activegate r2)
     \<longrightarrow> health_score (generate_summary s2 r2) \<le> health_score (generate_summary s1 r1))
   \<and> 0 \<le> health_score (generate_summary s r)
   \<and> health_score (generate_summary s r) \<le> 100"
  by (auto simp: health_score_eq max_def min_def)

text \<open>
  One critical problem against fifty critical problems, three warnings and two offline
  gateways: the scores are 90 and 0.
\<close>

theorem health_score_monotone_bounded_witness:
  "critical (problems (results_with 1 0 0)) \<le> critical (problems (results_with 50 3 2))
   \<and> warnings (problems (results_with 1 0 0)) \<le> warnings (problems (results_with 50 3 2))
   \<and> offline_or_0 (activegate (results_with 1 0 0)) \<le> offline_or_0 (activegate (results_with 50 3 2))
   \<and> health_score (generate_summary example_analyzer (results_with 50 3 2))
        \<le> health_score (generate_summary example_analyzer (results_with 1 0 0))
   \<and> health_score (generate_summary example_analyzer (results_with 50 3 2)) = 0
   \<and> health_score (generate_summary example_analyzer (results_with 1 0 0)) = 90"
  using health_score_monotone_bounded[of "results_with 1 0 0" "results_with 50 3 2" example_analyzer example_analyzer
           example_analyzer "results_with 1 0 0"]
  by (simp add: results_with_simps health_score_eq)

subsection \<open>Skipping checks\<close>




subsection \<open>Notification\<close>

text \<open>
  Claim C3 says that the fallback delivery also runs when the primary delivery raises
  an error other than a timeout. On a machine where starting the script raises, the
  handler of \<open>send_imessage\<close> returns \<open>False\<close> and only the primary script was run.
\<close>

theorem no_fallback_after_error:
  "failing_shell (SendScript (ascii ''+15550100'') (escape (ascii ''Daily report'')))
     = OtherError (Exception (ascii ''No such file or directory''))
   \<and> send_imessage failing_shell (ascii ''+15550100'') (ascii ''Daily report'')
     = (Inr False, [SendScript (ascii ''+15550100'') (escape (ascii ''Daily report''))])"
  by (simp add: send_imessage_def failing_shell_def Let_def)

text \<open>
  Claim C3, amended. The scripts \<open>send_imessage\<close> runs are the primary script and,
  exactly when the primary script returned a non-zero exit status, the fallback script
  after it. So the fallback is not invoked when the primary exits with status zero,
  when it times out, or when it raises any other error.
\<close>

theorem fallback_iff_nonzero_exit:
  "snd (send_imessage run recipient message) =
     SendScript recipient (escape message)
       # (if \<exists>rc. run (SendScript recipient (escape message)) = Returncode rc \<and> rc \<noteq> 0
          then [KeystrokeScript recipient (escape message)] else [])
   \<and> (KeystrokeScript recipient (escape message) \<in> set (snd (send_imessage run recipient message))
        \<longleftrightarrow> (\<exists>rc. run (SendScript recipient (escape message)) = Returncode rc \<and> rc \<noteq> 0))"
proof -
  have "snd (send_imessage run recipient message) =
     SendScript recipient (escape message)
       # (if \<exists>rc. run (SendScript recipient (escape message)) = Returncode rc \<and> rc \<noteq> 0
          then [KeystrokeScript recipient (escape message)] else [])"
  proof (cases "run (SendScript recipient (escape message))")
  case (Returncode rc)
  then show ?thesis
    by (cases "run (KeystrokeScript recipient (escape message))")
       (simp_all add: send_imessage_def send_imessage_fallback_def Let_def)
next
  case TimeoutExpired
  then show ?thesis by (simp add: send_imessage_def Let_def)
next
  case (OtherError e)
  then show ?thesis by (simp add: send_imessage_def Let_def)
qed
  then show ?thesis by simp
qed

text \<open>A primary delivery that exits with status 1 is followed by the fallback.\<close>

theorem fallback_iff_nonzero_exit_witness:
  "exit_one_shell (SendScript (ascii ''+15550100'') (escape (ascii ''Daily report''))) = Returncode 1
   \<and> snd (send_imessage exit_one_shell (ascii ''+15550100'') (ascii ''Daily report''))
      = [SendScript (ascii ''+15550100'') (escape (ascii ''Daily report'')),
         KeystrokeScript (ascii ''+15550100'') (escape (ascii ''Daily report''))]"
  using fallback_iff_nonzero_exit[of exit_one_shell "ascii ''+15550100''" "ascii ''Daily report''"]
  by simp

subsection \<open>Fleet check\<close>

text \<open>
  Claim C6. Let the version of a host be its installer version as the check reads it
  (\<^verbatim>\<open>"unknown"\<close> when the host has none), and let \<open>items\<close> be the distinct versions
  in the order in which they are first met, each with the number of hosts that have
  it. When the fleet check is enabled and its request returns, the check returns a
  result whose version count is the number of distinct versions; the fragmentation
  issue is appended exactly when that number exceeds 3, the issues being left as they
  were exactly when it does not; and the reported top versions are the first three
  entries of a ranking of \<open>items\<close> that is a rearrangement of \<open>items\<close>, is in
  descending order of count, and keeps entries of equal count in their order of first
  encounter. In particular, the example fleet has the version counts 1.0: 5, 1.1: 3,
  1.2: 1, 1.3: 1, and on it the check appends the issue and reports the top versions
  (1.0, 5), (1.1, 3), (1.2, 1).
\<close>

theorem fleet_fragmentation_and_top3:
  "(CHECK_ONEAGENT_HEALTH cfg \<and> get_oneagent_info (client self) = (Inr data, c) \<longrightarrow>
     (\<exists>r self'. analyze_oneagent cfg self = (Inr (Ran r), self')
        \<and> (let vs = map version_of (get_list data);
                items = map (\<lambda>v. (v, int (count_list vs v))) (rev (remdups (rev vs)))
            in version_count r = int (card (set vs))
             \<and> (issues self' = issues self @ [fragmentation_issue (int (card (set vs)))]
                   \<longleftrightarrow> 3 < card (set vs))
             \<and> (issues self' = issues self \<longleftrightarrow> card (set vs) \<le> 3)
             \<and> (\<exists>ranked. top_versions r = take 3 ranked
                   \<and> mset ranked = mset items
                   \<and> sorted_wrt (\<lambda>a b. snd b \<le> snd a) ranked
                   \<and> (\<forall>n. filter (\<lambda>x. snd x = n) ranked = filter (\<lambda>x. snd x = n) items)))))
   \<and> snd (tally example_fleet)
        = [(ascii ''1.0'', 5), (ascii ''1.1'', 3), (ascii ''1.2'', 1), (ascii ''1.3'', 1)]
   \<and> analyze_oneagent example_config example_analyzer =
        (Inr (Ran \<lparr>total_hosts = 10,
                   monitoring_modes = [(ascii ''FULL_STACK'', 10)],
                   version_count = 4,
                   top_versions = [(ascii ''1.0'', 5), (ascii ''1.1'', 3), (ascii ''1.2'', 1)]\<rparr>),
         example_analyzer\<lparr>client := (client example_analyzer)\<lparr>requested :=
                             [ascii ''https://abc12345.live.dynatrace.com/api/v2/entities'']\<rparr>,
                           issues := [fragmentation_issue 4]\<rparr>)"
proof -
  have general: "\<exists>r self'. analyze_oneagent cfg self = (Inr (Ran r), self')
        \<and> (let vs = map version_of (get_list data);
                items = map (\<lambda>v. (v, int (count_list vs v))) (rev (remdups (rev vs)))
            in version_count r = int (card (set vs))
             \<and> (issues self' = issues self @ [fragmentation_issue (int (card (set vs)))]
                   \<longleftrightarrow> 3 < card (set vs))
             \<and> (issues self' = issues self \<longleftrightarrow> card (set vs) \<le> 3)
             \<and> (\<exists>ranked. top_versions r = take 3 ranked
                   \<and> mset ranked = mset items
                   \<and> sorted_wrt (\<lambda>a b. snd b \<le> snd a) ranked
                   \<and> (\<forall>n. filter (\<lambda>x. snd x = n) ranked = filter (\<lambda>x. snd x = n) items)))"
    if on: "CHECK_ONEAGENT_HEALTH cfg" and get: "get_oneagent_info (client self) = (Inr data, c)"
  proof -
    define vs where "vs = map version_of (get_list data)"
    define items where "items = map (\<lambda>v. (v, int (count_list vs v))) (rev (remdups (rev vs)))"
    have versions: "snd (tally (get_list data)) = items"
      by (simp add: snd_tally items_def vs_def)
    have len: "length items = card (set vs)"
      by (simp add: items_def length_remdups_card_conv)
    have "map fst items = rev (remdups (rev vs))"
      unfolding items_def by (rule keys_graph)
    then have "distinct (map fst items)"
      by simp
    then have top: "top3 items = take 3 (sorted_reverse snd items)"
      by (rule top3_eq)
    have ranked: "\<exists>ranked. take 3 (sorted_reverse snd items) = take 3 ranked
                   \<and> mset ranked = mset items
                   \<and> sorted_wrt (\<lambda>a b. snd b \<le> snd a) ranked
                   \<and> (\<forall>n. filter (\<lambda>x. snd x = n) ranked = filter (\<lambda>x. snd x = n) items)"
      using mset_sorted_reverse[of snd items] sorted_reverse_desc[of snd items]
        sorted_reverse_stable[of snd _ items]
      by blast
    show ?thesis
      unfolding analyze_oneagent_Inr[OF on get] versions top Let_def
        vs_def[symmetric] items_def[symmetric]
      using ranked by (cases "3 < card (set vs)") (auto simp: len)
  qed
  have ex: "snd (tally example_fleet)
        = [(ascii ''1.0'', 5), (ascii ''1.1'', 3), (ascii ''1.2'', 1), (ascii ''1.3'', 1)]"
    by (simp add: example_tally)
  have on: "CHECK_ONEAGENT_HEALTH example_config" by (simp add: example_config_def)
  have run: "analyze_oneagent example_config example_analyzer =
        (Inr (Ran \<lparr>total_hosts = 10,
                   monitoring_modes = [(ascii ''FULL_STACK'', 10)],
                   version_count = 4,
                   top_versions = [(ascii ''1.0'', 5), (ascii ''1.1'', 3), (ascii ''1.2'', 1)]\<rparr>),
         example_analyzer\<lparr>client := (client example_analyzer)\<lparr>requested :=
                             [ascii ''https://abc12345.live.dynatrace.com/api/v2/entities'']\<rparr>,
                           issues := [fragmentation_issue 4]\<rparr>)"
    unfolding analyze_oneagent_Inr[OF on example_get_oneagent_info]
    by (simp add: get_list_def example_tally example_top3 example_issues)
       (simp add: example_fleet_def)
  from general ex run show ?thesis by blast
qed


text \<open>The general part at the example fleet: four versions, so the issue is there.\<close>

theorem fleet_fragmentation_and_top3_witness:
  "CHECK_ONEAGENT_HEALTH example_config
   \<and> get_oneagent_info (client example_analyzer)
       = (Inr (Some example_fleet),
          (client example_analyzer)\<lparr>requested := [ascii ''https://abc12345.live.dynatrace.com/api/v2/entities'']\<rparr>)
   \<and> (\<exists>r self'. analyze_oneagent example_config example_analyzer = (Inr (Ran r), self')
         \<and> version_count r = 4 \<and> issues self' = [fragmentation_issue 4])"
proof -
  have on: "CHECK_ONEAGENT_HEALTH example_config" by (simp add: example_config_def)
  note get = example_get_oneagent_info
  have card: "card (set (map version_of (get_list (Some example_fleet)))) = 4"
    by (simp add: get_list_def example_versions ascii_def)
  from fleet_fragmentation_and_top3[of example_config example_analyzer "Some example_fleet"
            "(client example_analyzer)\<lparr>requested := [ascii ''https://abc12345.live.dynatrace.com/api/v2/entities'']\<rparr>"]
    on get
  obtain r self' where
    a: "analyze_oneagent example_config example_analyzer = (Inr (Ran r), self')" and
    v: "version_count r = int (card (set (map version_of (get_list (Some example_fleet)))))" and
    i: "issues self' = issues example_analyzer
            @ [fragmentation_issue (int (card (set (map version_of (get_list (Some example_fleet))))))]
        \<longleftrightarrow> 3 < card (set (map version_of (get_list (Some example_fleet))))"
    unfolding Let_def by blast
  from a v[unfolded card] i[unfolded card] show ?thesis
    using on get by (auto simp: example_issues)
qed

text \<open>
  Claim C10. When the fleet check is enabled and its request returns a list of
  entities, the check returns a result in which: the host total is the length of the
  list; the mode histogram and the version tally have distinct keys, and the count
  under each key is the number of entities with that mode or version, an absent mode
  or version counting as \<^verbatim>\<open>"unknown"\<close>; the counts of the mode histogram sum to the
  host total, and so do the counts of the version tally; and the top versions are at
  most three entries with distinct keys, each an entry of the version tally with its
  count.
\<close>

theorem fleet_tally_invariants:
  "CHECK_ONEAGENT_HEALTH cfg \<and> get_oneagent_info (client self) = (Inr data, c) \<longrightarrow>
     (\<exists>r self'. analyze_oneagent cfg self = (Inr (Ran r), self')
        \<and> (let entities = get_list data;
                mode = (\<lambda>e. case properties e of None \<Rightarrow> ascii ''unknown''
                           | Some p \<Rightarrow> (case monitoringMode p of None \<Rightarrow> ascii ''unknown'' | Some m \<Rightarrow> m));
                version = (\<lambda>e. case properties e of None \<Rightarrow> ascii ''unknown''
                           | Some p \<Rightarrow> (case installerVersion p of None \<Rightarrow> ascii ''unknown'' | Some v \<Rightarrow> v));
                versions = snd (tally entities)
            in total_hosts r = int (length entities)
             \<and> monitoring_modes r = fst (tally entities)
             \<and> version_count r = int (length versions)
             \<and> distinct (map fst (monitoring_modes r))
             \<and> distinct (map fst versions)
             \<and> (\<forall>k. dict_get (monitoring_modes r) k 0 = int (length (filter (\<lambda>e. mode e = k) entities)))
             \<and> (\<forall>k. dict_get versions k 0 = int (length (filter (\<lambda>e. version e = k) entities)))
             \<and> sum_list (map snd (monitoring_modes r)) = total_hosts r
             \<and> sum_list (map snd versions) = total_hosts r
             \<and> length (top_versions r) \<le> 3
             \<and> distinct (map fst (top_versions r))
             \<and> set (top_versions r) \<subseteq> set versions))"
proof (intro impI, elim conjE)
  assume on: "CHECK_ONEAGENT_HEALTH cfg" and get: "get_oneagent_info (client self) = (Inr data, c)"
  let ?es = "get_list data"
  have m: "fst (tally ?es) = map (\<lambda>k. (k, int (count_list (map mode_of ?es) k)))
                        (rev (remdups (rev (map mode_of ?es))))"
    by (rule fst_tally)
  have v: "snd (tally ?es) = map (\<lambda>k. (k, int (count_list (map version_of ?es) k)))
                        (rev (remdups (rev (map version_of ?es))))"
    by (rule snd_tally)
  note mf = tally_facts[of mode_of ?es, folded m]
  note vf = tally_facts[of version_of ?es, folded v]
  note tf = top3_facts[OF vf(1)]
  show "\<exists>r self'. analyze_oneagent cfg self = (Inr (Ran r), self')
        \<and> (let entities = get_list data;
                mode = (\<lambda>e. case properties e of None \<Rightarrow> ascii ''unknown''
                           | Some p \<Rightarrow> (case monitoringMode p of None \<Rightarrow> ascii ''unknown'' | Some m \<Rightarrow> m));
                version = (\<lambda>e. case properties e of None \<Rightarrow> ascii ''unknown''
                           | Some p \<Rightarrow> (case installerVersion p of None \<Rightarrow> ascii ''unknown'' | Some v \<Rightarrow> v));
                versions = snd (tally entities)
            in total_hosts r = int (length entities)
             \<and> monitoring_modes r = fst (tally entities)
             \<and> version_count r = int (length versions)
             \<and> distinct (map fst (monitoring_modes r))
             \<and> distinct (map fst versions)
             \<and> (\<forall>k. dict_get (monitoring_modes r) k 0 = int (length (filter (\<lambda>e. mode e = k) entities)))
             \<and> (\<forall>k. dict_get versions k 0 = int (length (filter (\<lambda>e. version e = k) entities)))
             \<and> sum_list (map snd (monitoring_modes r)) = total_hosts r
             \<and> sum_list (map snd versions) = total_hosts r
             \<and> length (top_versions r) \<le> 3
             \<and> distinct (map fst (top_versions r))
             \<and> set (top_versions r) \<subseteq> set versions)"
    unfolding analyze_oneagent_Inr[OF on get] Let_def mode_of_eq[symmetric] version_of_eq[symmetric]
    using mf vf tf by simp
qed


text \<open>
  A fleet of four hosts, two without a mode and two without a version: both tallies
  count 2 under \<^verbatim>\<open>"unknown"\<close> and sum to 4.
\<close>

theorem fleet_tally_invariants_witness:
  "CHECK_ONEAGENT_HEALTH example_config
   \<and> get_oneagent_info (client sparse_analyzer)
       = (Inr (Some sparse_fleet), snd (get_oneagent_info (client sparse_analyzer)))
   \<and> (\<exists>r self'. analyze_oneagent example_config sparse_analyzer = (Inr (Ran r), self')
         \<and> total_hosts r = 4
         \<and> dict_get (monitoring_modes r) (ascii ''unknown'') 0 = 2
         \<and> dict_get (snd (tally sparse_fleet)) (ascii ''unknown'') 0 = 2
         \<and> sum_list (map snd (monitoring_modes r)) = 4
         \<and> sum_list (map snd (snd (tally sparse_fleet))) = 4
         \<and> length (top_versions r) \<le> 3
         \<and> set (top_versions r) \<subseteq> set (snd (tally sparse_fleet)))"
proof -
  have on: "CHECK_ONEAGENT_HEALTH example_config" by (simp add: example_config_def)
  have get: "get_oneagent_info (client sparse_analyzer)
       = (Inr (Some sparse_fleet), snd (get_oneagent_info (client sparse_analyzer)))"
    using get_oneagent_info_Json[OF sparse_entities] by simp
  have m: "length (filter (\<lambda>e. (case properties e of None \<Rightarrow> ascii ''unknown''
                | Some p \<Rightarrow> (case monitoringMode p of None \<Rightarrow> ascii ''unknown'' | Some m \<Rightarrow> m))
                = ascii ''unknown'') sparse_fleet) = 2"
    by (simp add: sparse_fleet_def example_host_def ascii_def)
  have v: "length (filter (\<lambda>e. (case properties e of None \<Rightarrow> ascii ''unknown''
                | Some p \<Rightarrow> (case installerVersion p of None \<Rightarrow> ascii ''unknown'' | Some v \<Rightarrow> v))
                = ascii ''unknown'') sparse_fleet) = 2"
    by (simp add: sparse_fleet_def example_host_def ascii_def)
  have l: "length sparse_fleet = 4" by (simp add: sparse_fleet_def)
  from fleet_tally_invariants[of example_config sparse_analyzer "Some sparse_fleet"
             "snd (get_oneagent_info (client sparse_analyzer))"] on get
  obtain r self' where
    a: "analyze_oneagent example_config sparse_analyzer = (Inr (Ran r), self')" and
    f: "total_hosts r = int (length (get_list (Some sparse_fleet)))"
       "dict_get (monitoring_modes r) (ascii ''unknown'') 0
          = int (length (filter (\<lambda>e. (case properties e of None \<Rightarrow> ascii ''unknown''
                | Some p \<Rightarrow> (case monitoringMode p of None \<Rightarrow> ascii ''unknown'' | Some m \<Rightarrow> m))
                = ascii ''unknown'') (get_list (Some sparse_fleet))))"
       "dict_get (snd (tally (get_list (Some sparse_fleet)))) (ascii ''unknown'') 0
          = int (length (filter (\<lambda>e. (case properties e of None \<Rightarrow> ascii ''unknown''
                | Some p \<Rightarrow> (case installerVersion p of None \<Rightarrow> ascii ''unknown'' | Some v \<Rightarrow> v))
                = ascii ''unknown'') (get_list (Some sparse_fleet))))"
       "sum_list (map snd (monitoring_modes r)) = total_hosts r"
       "sum_list (map snd (snd (tally (get_list (Some sparse_fleet))))) = total_hosts r"
       "length (top_versions r) \<le> 3"
       "set (top_versions r) \<subseteq> set (snd (tally (get_list (Some sparse_fleet))))"
    unfolding Let_def by blast
  have g: "get_list (Some sparse_fleet) = sparse_fleet" by (simp add: get_list_def)
  from a f[unfolded g m v l] show ?thesis
    using on get by auto
qed

subsection \<open>Report generation\<close>

text \<open>
  Claim C7. When the tenant URL or the API token holds its placeholder value, report
  generation requests nothing from the API and returns the setup instructions: the
  text below, in which only the time stamp varies.
\<close>

theorem unconfigured_report:
  "DYNATRACE_TENANT_URL cfg = placeholder_tenant_url \<or> DYNATRACE_API_TOKEN cfg = placeholder_api_token
   \<longrightarrow> generate_daily_report cfg now now_iso srv =
     (Inr (concat
       [bell @ ascii '' Dynatrace Daily Report'' @ nl,
        calendar @ ascii '' '' @ now @ nl,
        nl,
        warning_sign @ ascii '' SETUP REQUIRED'' @ nl,
        ascii ''Configure your Dynatrace credentials in:'' @ nl,
        ascii ''~/dynatrace_agent/config.env'' @ nl,
        nl,
        ascii ''Once configured, you'' @ [39] @ ascii ''ll receive:'' @ nl,
        bullet @ ascii '' Problem summary'' @ nl,
        bullet @ ascii '' OneAgent fleet health  '' @ nl,
        bullet @ ascii '' ActiveGate status'' @ nl,
        bullet @ ascii '' Architecture analysis'' @ nl,
        bullet @ ascii '' Latest DT updates'' @ nl,
        nl,
        books @ ascii '' Setup guide in README.md'']),
      [])"
proof
  assume "DYNATRACE_TENANT_URL cfg = placeholder_tenant_url \<or> DYNATRACE_API_TOKEN cfg = placeholder_api_token"
  then have "contains (DYNATRACE_TENANT_URL cfg) (ascii ''YOUR_'')
      \<or> contains (DYNATRACE_API_TOKEN cfg) (ascii ''YOUR_'')"
    using placeholders_contain_marker by auto
  from unconfigured_branch[OF this] show "generate_daily_report cfg now now_iso srv =
     (Inr (concat
       [bell @ ascii '' Dynatrace Daily Report'' @ nl,
        calendar @ ascii '' '' @ now @ nl,
        nl,
        warning_sign @ ascii '' SETUP REQUIRED'' @ nl,
        ascii ''Configure your Dynatrace credentials in:'' @ nl,
        ascii ''~/dynatrace_agent/config.env'' @ nl,
        nl,
        ascii ''Once configured, you'' @ [39] @ ascii ''ll receive:'' @ nl,
        bullet @ ascii '' Problem summary'' @ nl,
        bullet @ ascii '' OneAgent fleet health  '' @ nl,
        bullet @ ascii '' ActiveGate status'' @ nl,
        bullet @ ascii '' Architecture analysis'' @ nl,
        bullet @ ascii '' Latest DT updates'' @ nl,
        nl,
        books @ ascii '' Setup guide in README.md'']),
      [])"
    by (simp only: strip_setup_report)
qed

text \<open>The configuration built from an empty environment.\<close>

theorem unconfigured_report_witness:
  "(DYNATRACE_TENANT_URL default_config = placeholder_tenant_url
      \<or> DYNATRACE_API_TOKEN default_config = placeholder_api_token)
   \<and> generate_daily_report default_config (ascii ''2026-11-04 11:00 IST'') [] example_server
       = (Inr (strip (setup_report (ascii ''2026-11-04 11:00 IST''))), [])"
proof -
  have h: "DYNATRACE_TENANT_URL default_config = placeholder_tenant_url
      \<or> DYNATRACE_API_TOKEN default_config = placeholder_api_token"
    by (simp add: default_config_def)
  show ?thesis
    unfolding strip_setup_report
    using h unconfigured_report[of default_config "ascii ''2026-11-04 11:00 IST''" "[]" example_server]
    by blast
qed

text \<open>
  Claim C8 says that report generation catches every exception raised inside the
  analysis path and never raises. The handler is \<^verbatim>\<open>except Exception\<close>: when the
  process is interrupted while the gateway request of the example tenant is under
  way, the \<^verbatim>\<open>KeyboardInterrupt\<close> leaves the analysis and leaves
  \<open>generate_daily_report\<close> as well.
\<close>

theorem interrupt_not_caught:
  "\<not> contains (DYNATRACE_TENANT_URL example_config) (ascii ''YOUR_'')
   \<and> \<not> contains (DYNATRACE_API_TOKEN example_config) (ascii ''YOUR_'')
   \<and> fst (analyze_all example_config []
         (ArchitectureAnalyzer_init
            (DynatraceClient_init (DYNATRACE_TENANT_URL example_config) (DYNATRACE_API_TOKEN example_config) interrupted_server)))
       = Inl KeyboardInterrupt
   \<and> fst (generate_daily_report example_config (ascii ''2026-11-04 11:00 IST'') [] interrupted_server)
       = Inl KeyboardInterrupt"
proof -
  let ?now = "ascii ''2026-11-04 11:00 IST''"
  obtain s' where run: "analyze_all example_config []
         (ArchitectureAnalyzer_init
            (DynatraceClient_init (DYNATRACE_TENANT_URL example_config) (DYNATRACE_API_TOKEN example_config) interrupted_server))
        = (Inl KeyboardInterrupt, s')"
    using example_interrupted[of "[]"] by blast
  from real_mode_Inl[OF run]
  have rm: "real_mode example_config ?now [] interrupted_server
              = (Inl KeyboardInterrupt, requested (client s'))" .
  have "generate_daily_report example_config ?now [] interrupted_server
          = (Inl KeyboardInterrupt, requested (client s'))"
    by (rule propagate_branch[OF example_not_placeholder rm]) simp
  with run example_not_placeholder show ?thesis by simp
qed

text \<open>
  Claim C8, amended. With configured credentials, whenever the analysis ends with an
  exception that is an instance of \<^verbatim>\<open>Exception\<close>, report generation returns the error
  report: the text below, which holds the first 100 characters of the exception's
  message (all of it when it is shorter) and, in its last line, the location of the
  log file; the requests made before the exception are those of the run. The same
  holds for such an exception raised anywhere in the \<^verbatim>\<open>try\<close> block. No instance of
  \<^verbatim>\<open>Exception\<close> is ever raised by \<open>generate_daily_report\<close>. What is not an
  instance of \<^verbatim>\<open>Exception\<close> (\<^verbatim>\<open>KeyboardInterrupt\<close>, \<^verbatim>\<open>SystemExit\<close>) is not caught: it
  is raised by \<open>generate_daily_report\<close> in turn.
\<close>

theorem error_report_on_exception:
  "(\<not> contains (DYNATRACE_TENANT_URL cfg) (ascii ''YOUR_'')
    \<and> \<not> contains (DYNATRACE_API_TOKEN cfg) (ascii ''YOUR_'')
    \<and> analyze_all cfg now_iso
         (ArchitectureAnalyzer_init
            (DynatraceClient_init (DYNATRACE_TENANT_URL cfg) (DYNATRACE_API_TOKEN cfg) srv))
        = (Inl (Exception m), analyzer')
    \<longrightarrow> generate_daily_report cfg now now_iso srv =
         (Inr (concat
           [bell @ ascii '' Dynatrace Daily Report'' @ nl,
            calendar @ ascii '' '' @ now @ nl,
            nl,
            cross_mark @ ascii '' Error fetching data'' @ nl,
            take 100 m @ nl,
            nl,
            ascii ''Check logs: ~/Library/Logs/dynatrace_agent.log'']),
          requested (client analyzer'))
      \<and> length (take 100 m) = min 100 (length m)
      \<and> startswith m (take 100 m))
   \<and> (\<not> contains (DYNATRACE_TENANT_URL cfg) (ascii ''YOUR_'')
    \<and> \<not> contains (DYNATRACE_API_TOKEN cfg) (ascii ''YOUR_'')
    \<and> real_mode cfg now now_iso srv = (Inl (Exception m'), reqs)
    \<longrightarrow> generate_daily_report cfg now now_iso srv =
         (Inr (concat
           [bell @ ascii '' Dynatrace Daily Report'' @ nl,
            calendar @ ascii '' '' @ now @ nl,
            nl,
            cross_mark @ ascii '' Error fetching data'' @ nl,
            take 100 m' @ nl,
            nl,
            ascii ''Check logs: ~/Library/Logs/dynatrace_agent.log'']),
          reqs))
   \<and> fst (generate_daily_report cfg now now_iso srv) \<noteq> Inl (Exception m'')
   \<and> (\<not> contains (DYNATRACE_TENANT_URL cfg) (ascii ''YOUR_'')
    \<and> \<not> contains (DYNATRACE_API_TOKEN cfg) (ascii ''YOUR_'')
    \<and> real_mode cfg now now_iso srv = (Inl e, reqs')
    \<and> \<not> isinstance_Exception e
    \<longrightarrow> generate_daily_report cfg now now_iso srv = (Inl e, reqs'))"
proof -
  have 1: "generate_daily_report cfg now now_iso srv =
         (Inr (concat
           [bell @ ascii '' Dynatrace Daily Report'' @ nl,
            calendar @ ascii '' '' @ now @ nl,
            nl,
            cross_mark @ ascii '' Error fetching data'' @ nl,
            take 100 m @ nl,
            nl,
            ascii ''Check logs: ~/Library/Logs/dynatrace_agent.log'']),
          requested (client analyzer'))"
    if a: "\<not> contains (DYNATRACE_TENANT_URL cfg) (ascii ''YOUR_'')"
      "\<not> contains (DYNATRACE_API_TOKEN cfg) (ascii ''YOUR_'')"
      "analyze_all cfg now_iso
         (ArchitectureAnalyzer_init
            (DynatraceClient_init (DYNATRACE_TENANT_URL cfg) (DYNATRACE_API_TOKEN cfg) srv))
        = (Inl (Exception m), analyzer')"
    unfolding except_branch[OF a(1,2) real_mode_Inl[OF a(3)]] strip_error_report by simp
  have 2: "length (take 100 m) = min 100 (length m)"
    by (simp add: min_def)
  have 3: "startswith m (take 100 m)"
    unfolding startswith_iff by (metis append_take_drop_id)
  have 4: "generate_daily_report cfg now now_iso srv =
         (Inr (concat
           [bell @ ascii '' Dynatrace Daily Report'' @ nl,
            calendar @ ascii '' '' @ now @ nl,
            nl,
            cross_mark @ ascii '' Error fetching data'' @ nl,
            take 100 m' @ nl,
            nl,
            ascii ''Check logs: ~/Library/Logs/dynatrace_agent.log'']),
          reqs)"
    if a: "\<not> contains (DYNATRACE_TENANT_URL cfg) (ascii ''YOUR_'')"
      "\<not> contains (DYNATRACE_API_TOKEN cfg) (ascii ''YOUR_'')"
      "real_mode cfg now now_iso srv = (Inl (Exception m'), reqs)"
    unfolding except_branch[OF a] strip_error_report by simp
  have 5: "fst (generate_daily_report cfg now now_iso srv) \<noteq> Inl (Exception m'')"
    by (rule no_Exception_escapes)
  have 6: "generate_daily_report cfg now now_iso srv = (Inl e, reqs')"
    if "\<not> contains (DYNATRACE_TENANT_URL cfg) (ascii ''YOUR_'')"
      "\<not> contains (DYNATRACE_API_TOKEN cfg) (ascii ''YOUR_'')"
      "real_mode cfg now now_iso srv = (Inl e, reqs')" "\<not> isinstance_Exception e"
    using that by (rule propagate_branch)
  from 1 2 3 4 5 6 show ?thesis by blast
qed

text \<open>
  The gateway request of the example tenant raises an exception whose message is 150
  times the letter x: the report holds 100 of them. And the interrupt of the other
  example is raised in turn.
\<close>

theorem error_report_on_exception_witness:
  "\<not> contains (DYNATRACE_TENANT_URL example_config) (ascii ''YOUR_'')
   \<and> \<not> contains (DYNATRACE_API_TOKEN example_config) (ascii ''YOUR_'')
   \<and> fst (analyze_all example_config []
         (ArchitectureAnalyzer_init
            (DynatraceClient_init (DYNATRACE_TENANT_URL example_config) (DYNATRACE_API_TOKEN example_config) raising_server)))
       = Inl (Exception (replicate 150 120))
   \<and> fst (real_mode example_config (ascii ''2026-11-04 11:00 IST'') [] raising_server)
       = Inl (Exception (replicate 150 120))
   \<and> fst (generate_daily_report example_config (ascii ''2026-11-04 11:00 IST'') [] raising_server) =
        Inr (concat
           [bell @ ascii '' Dynatrace Daily Report'' @ nl,
            calendar @ ascii '' '' @ ascii ''2026-11-04 11:00 IST'' @ nl,
            nl,
            cross_mark @ ascii '' Error fetching data'' @ nl,
            replicate 100 120 @ nl,
            nl,
            ascii ''Check logs: ~/Library/Logs/dynatrace_agent.log''])
   \<and> fst (real_mode example_config (ascii ''2026-11-04 11:00 IST'') [] interrupted_server)
       = Inl KeyboardInterrupt
   \<and> \<not> isinstance_Exception KeyboardInterrupt
   \<and> fst (generate_daily_report example_config (ascii ''2026-11-04 11:00 IST'') [] interrupted_server)
       = Inl KeyboardInterrupt"
proof -
  let ?a = "ArchitectureAnalyzer_init
           (DynatraceClient_init (DYNATRACE_TENANT_URL example_config)
              (DYNATRACE_API_TOKEN example_config) raising_server)"
  let ?now = "ascii ''2026-11-04 11:00 IST''"
  have t: "tenant (client ?a) = raising_server"
    by (simp add: ArchitectureAnalyzer_init_def DynatraceClient_init_def)
  have "\<exists>s'. analyze_all example_config [] ?a = (Inl (Exception (replicate 150 120)), s')"
  proof (rule analyze_all_gateway_raises)
    show "raised (problems_answer (tenant (client ?a))) = None"
      unfolding t by (simp add: raising_server_def example_server_def)
    show "raised (entities_answer (tenant (client ?a))) = None"
      unfolding t by (simp add: raising_server_def example_server_def)
    show "CHECK_ACTIVEGATE_HEALTH example_config"
      by (simp add: example_config_def)
    show "raised (activeGates_answer (tenant (client ?a))) = Some (Exception (replicate 150 120))"
      unfolding t by (simp add: raising_server_def)
  qed
  then obtain s' where run: "analyze_all example_config [] ?a = (Inl (Exception (replicate 150 120)), s')"
    by blast
  have rm: "real_mode example_config ?now [] raising_server
              = (Inl (Exception (replicate 150 120)), requested (client s'))"
    by (rule real_mode_Inl[OF run])
  obtain s'' where irun: "analyze_all example_config []
         (ArchitectureAnalyzer_init
            (DynatraceClient_init (DYNATRACE_TENANT_URL example_config) (DYNATRACE_API_TOKEN example_config) interrupted_server))
        = (Inl KeyboardInterrupt, s'')"
    using example_interrupted[of "[]"] by blast
  have irm: "real_mode example_config ?now [] interrupted_server
              = (Inl KeyboardInterrupt, requested (client s''))"
    by (rule real_mode_Inl[OF irun])
  have ni: "\<not> isinstance_Exception KeyboardInterrupt" by simp
  note c = error_report_on_exception[where cfg = example_config and now_iso = "[]" and srv = raising_server
      and m = "replicate 150 120" and analyzer' = s' and now = ?now
      and m' = "replicate 150 120" and reqs = "requested (client s')"]
  from c example_not_placeholder run
  have g1: "generate_daily_report example_config ?now [] raising_server =
        (Inr (concat
           [bell @ ascii '' Dynatrace Daily Report'' @ nl,
            calendar @ ascii '' '' @ ?now @ nl,
            nl,
            cross_mark @ ascii '' Error fetching data'' @ nl,
            take 100 (replicate 150 120) @ nl,
            nl,
            ascii ''Check logs: ~/Library/Logs/dynatrace_agent.log'']),
         requested (client s'))"
    by blast
  from c example_not_placeholder rm
  have g2: "generate_daily_report example_config ?now [] raising_server =
        (Inr (concat
           [bell @ ascii '' Dynatrace Daily Report'' @ nl,
            calendar @ ascii '' '' @ ?now @ nl,
            nl,
            cross_mark @ ascii '' Error fetching data'' @ nl,
            take 100 (replicate 150 120) @ nl,
            nl,
            ascii ''Check logs: ~/Library/Logs/dynatrace_agent.log'']),
         requested (client s'))"
    by blast
  note d = error_report_on_exception[where cfg = example_config and now_iso = "[]"
      and srv = interrupted_server and now = ?now and e = KeyboardInterrupt
      and reqs' = "requested (client s'')"]
  from d example_not_placeholder irm ni
  have g3: "generate_daily_report example_config ?now [] interrupted_server
              = (Inl KeyboardInterrupt, requested (client s''))"
    by blast
  have m: "take 100 (replicate 150 (120::nat)) = replicate 100 120"
    by simp
  from g1 g2 g3 m show ?thesis
    using example_not_placeholder run rm irm by simp
qed

subsection \<open>Placeholder detection\<close>



end
